theory Spec2Isabelle
  imports Main "HOL-Library.Sublist"
begin

section \<open>The repository syncer (internal/repos/syncer.go)\<close>

text \<open>
  A shallow embedding of \<^verbatim>\<open>internal/repos/syncer.go\<close>: the backoff policy
  \<^verbatim>\<open>calcSyncInterval\<close>, the per-repo transactional apply \<^verbatim>\<open>Syncer.sync\<close>, the
  streaming pass \<^verbatim>\<open>Syncer.SyncExternalService\<close> and the lazy single-repo path
  \<^verbatim>\<open>Syncer.SyncRepo\<close> / \<^verbatim>\<open>Syncer.syncRepo\<close>.

  The store, the sources and the configuration are collaborators that the file only
  calls; they are parameters of the model (fields of the record \<open>Syncer\<close>), so every
  theorem holds for every store and every source, failing or not.
\<close>

subsection \<open>Time and durations\<close>

text \<open>
  \<^verbatim>\<open>time.Duration\<close> is an \<^verbatim>\<open>int64\<close> count of nanoseconds: a \<open>Duration\<close> is an
  integer in \<open>[-2^63, 2^63)\<close> and arithmetic on it wraps (\<open>wrap64\<close>).
  A \<^verbatim>\<open>time.Time\<close> is an instant, counted here in nanoseconds since the zero time
  (January 1, year 1, 00:00:00 UTC), the instant for which \<^verbatim>\<open>IsZero\<close> holds.
\<close>

type_synonym Time = int
type_synonym Duration = int

definition maxDuration :: Duration where
  "maxDuration = 2 ^ 63 - 1"

definition minDuration :: Duration where
  "minDuration = - (2 ^ 63)"

definition wrap64 :: "int \<Rightarrow> Duration" where
  "wrap64 x = (x + 2 ^ 63) mod 2 ^ 64 - 2 ^ 63"

definition Nanosecond :: Duration where
  "Nanosecond = 1"

definition Second :: Duration where
  "Second = 1000000000 * Nanosecond"

definition Minute :: Duration where
  "Minute = 60 * Second"

definition Hour :: Duration where
  "Hour = 60 * Minute"

definition IsZero :: "Time \<Rightarrow> bool" where
  "IsZero t = (t = 0)"

text \<open>
  \<^verbatim>\<open>t.Sub(u)\<close>: the duration \<open>t - u\<close>; when it exceeds the largest (smallest) value a
  Duration can hold, the largest (smallest) Duration is returned.
\<close>

definition Sub :: "Time \<Rightarrow> Time \<Rightarrow> Duration" where
  "Sub t u =
     (let d = t - u
      in if d > maxDuration then maxDuration
         else if d < minDuration then minDuration
         else d)"

definition Add :: "Time \<Rightarrow> Duration \<Rightarrow> Time" where
  "Add t d = t + d"

subsection \<open>Errors\<close>

text \<open>
  The error values the file creates or tests for. \<open>ErrUnauthorized\<close>, \<open>ErrForbidden\<close>
  and \<open>ErrAccountSuspended\<close> are the three types declared in the file;
  \<open>RepoNotFoundErr\<close> is \<^verbatim>\<open>database.RepoNotFoundErr\<close>; \<open>RepoLimitError\<close> carries
  SiteAdded, SiteLimit, ReposCount, ReposLimit (\<^verbatim>\<open>uint64\<close>), UserID and OrgID;
  \<open>Errorf\<close> stands for every other error (of the store, of a code host);
  \<open>Wrap\<close> is \<^verbatim>\<open>errors.Wrap\<close> and \<open>Multi\<close> the multi-error built by
  \<^verbatim>\<open>errors.Append\<close>.
\<close>

datatype error =
    ErrUnauthorized
  | ErrForbidden
  | ErrAccountSuspended
  | RepoNotFoundErr string
  | RepoLimitError int int int int int int
  | ErrCloudDefaultSync
  | Errorf string
  | Wrap error string
  | Multi "error list"

text \<open>
  The classifiers of package \<^verbatim>\<open>errcode\<close> look through the chain of wrapped errors
  for an error of the class; a multi-error is of a class when one of its errors is.
\<close>

fun IsUnauthorized :: "error \<Rightarrow> bool" where
  "IsUnauthorized ErrUnauthorized = True"
| "IsUnauthorized (Wrap e m) = IsUnauthorized e"
| "IsUnauthorized (Multi es) = list_ex IsUnauthorized es"
| "IsUnauthorized e = False"

fun IsForbidden :: "error \<Rightarrow> bool" where
  "IsForbidden ErrForbidden = True"
| "IsForbidden (Wrap e m) = IsForbidden e"
| "IsForbidden (Multi es) = list_ex IsForbidden es"
| "IsForbidden e = False"

fun IsAccountSuspended :: "error \<Rightarrow> bool" where
  "IsAccountSuspended ErrAccountSuspended = True"
| "IsAccountSuspended (Wrap e m) = IsAccountSuspended e"
| "IsAccountSuspended (Multi es) = list_ex IsAccountSuspended es"
| "IsAccountSuspended e = False"

fun IsNotFound :: "error \<Rightarrow> bool" where
  "IsNotFound (RepoNotFoundErr n) = True"
| "IsNotFound (Wrap e m) = IsNotFound e"
| "IsNotFound (Multi es) = list_ex IsNotFound es"
| "IsNotFound e = False"

text \<open>\<^verbatim>\<open>errors.HasType(err, &RepoLimitError{})\<close>.\<close>

fun HasType_RepoLimitError :: "error \<Rightarrow> bool" where
  "HasType_RepoLimitError (RepoLimitError a b c d u orgid) = True"
| "HasType_RepoLimitError (Wrap e m) = HasType_RepoLimitError e"
| "HasType_RepoLimitError (Multi es) = list_ex HasType_RepoLimitError es"
| "HasType_RepoLimitError e = False"

text \<open>
  \<^verbatim>\<open>errors.Append(errs, err)\<close> on the aggregate \<^verbatim>\<open>var errs error\<close> (\<open>None\<close> is
  \<^verbatim>\<open>nil\<close>): the multi-error of the errors so far and the new one.
\<close>

fun Append :: "error option \<Rightarrow> error \<Rightarrow> error option" where
  "Append None e = Some (Multi [e])"
| "Append (Some (Multi es)) e = Some (Multi (es @ [e]))"
| "Append (Some x) e = Some (Multi [x, e])"

subsection \<open>The backoff policy\<close>

definition calcSyncInterval ::
  "Time \<Rightarrow> Time \<Rightarrow> Duration \<Rightarrow> bool \<Rightarrow> error option \<Rightarrow> Duration" where
  "calcSyncInterval now lastSync minSyncInterval modified err =
     (let maxSyncInterval = wrap64 (8 * Hour)
      in if err = None \<and> (IsZero lastSync \<or> modified) then minSyncInterval
         else
           let interval = wrap64 (Sub now lastSync * 2)
           in if interval < minSyncInterval then minSyncInterval
              else if interval > maxSyncInterval then maxSyncInterval
              else interval)"

subsection \<open>Data model\<close>

text \<open>
  \<^verbatim>\<open>extsvc.CodeHost\<close>, with the result of its method \<^verbatim>\<open>IsPackageHost\<close> as a
  field.
\<close>

record CodeHost =
  ServiceID :: string
  ServiceType :: string
  IsPackageHost :: bool

record ExternalRepoSpec =
  ID :: string
  ServiceType :: string
  ServiceID :: string

text \<open>\<^verbatim>\<open>ExternalRepoSpec.Equal\<close> compares the three fields.\<close>

definition Equal :: "ExternalRepoSpec \<Rightarrow> ExternalRepoSpec \<Rightarrow> bool" where
  "Equal r s \<longleftrightarrow>
     ExternalRepoSpec.ID r = ExternalRepoSpec.ID s \<and> ServiceType r = ServiceType s \<and>
     ServiceID r = ServiceID s"

record ExternalService =
  ID :: int
  Kind :: string
  DisplayName :: string
  NamespaceUserID :: int
  NamespaceOrgID :: int
  CloudDefault :: bool
  LastSyncAt :: Time
  NextSyncAt :: Time

text \<open>
  Modelled from the spec: \<^verbatim>\<open>ExternalService.IsSiteOwned\<close> (package types) is not
  part of the file. Ownership is site, user or organisation; a service is site-owned
  when it belongs to no user and to no organisation.
\<close>

definition IsSiteOwned :: "ExternalService \<Rightarrow> bool" where
  "IsSiteOwned svc \<longleftrightarrow> NamespaceUserID svc = 0 \<and> NamespaceOrgID svc = 0"

record Repo =
  ID :: int
  Name :: string
  ExternalRepo :: ExternalRepoSpec
  Private :: bool
  UpdatedAt :: Time

text \<open>The zero value \<^verbatim>\<open>types.Repo{}\<close>.\<close>

definition zeroRepo :: Repo where
  "zeroRepo =
     \<lparr>ID = 0, Name = [],
      ExternalRepo = \<lparr>ExternalRepoSpec.ID = [], ServiceType = [], ServiceID = []\<rparr>,
      Private = False, UpdatedAt = 0\<rparr>"

text \<open>
  Modelled from the spec: \<^verbatim>\<open>Repo.Update\<close> (package types) is not part of the file.
  It compares the stored repo with the newly observed one field by field, copies every
  observed field that differs (the name, the privacy flag) and reports whether anything
  differed. The model returns the report and the updated repo.
\<close>

definition Update :: "Repo \<Rightarrow> Repo \<Rightarrow> bool \<times> Repo" where
  "Update r n =
     (let (m1, r1) = (if Name r \<noteq> Name n then (True, r\<lparr>Name := Name n\<rparr>) else (False, r));
          (m2, r2) = (if Private r1 \<noteq> Private n then (True, r1\<lparr>Private := Private n\<rparr>)
                      else (m1, r1))
      in (m2, r2))"

record Diff =
  Added :: "Repo list"
  Deleted :: "Repo list"
  Modified :: "Repo list"
  Unmodified :: "Repo list"

text \<open>The zero value \<^verbatim>\<open>Diff{}\<close>.\<close>

definition emptyDiff :: Diff where
  "emptyDiff = \<lparr>Added = [], Deleted = [], Modified = [], Unmodified = []\<rparr>"

definition Repos :: "Diff \<Rightarrow> Repo list" where
  "Repos d = Added d @ Deleted d @ Modified d @ Unmodified d"

definition Len :: "Diff \<Rightarrow> nat" where
  "Len d = length (Deleted d) + length (Modified d) + length (Added d) + length (Unmodified d)"

subsection \<open>Collaborators\<close>

text \<open>
  A source's stream is a list of results, each a repo or an error
  (\<^verbatim>\<open>SourceResult\<close> with \<^verbatim>\<open>Err\<close> set or not). \<open>GetRepo\<close> is \<open>None\<close> for a source
  that is no \<^verbatim>\<open>RepoGetter\<close>.
\<close>

datatype SourceResult = SourcedRepo Repo | SourceErr error

record Source =
  ListRepos :: "SourceResult list"
  GetRepo :: "(string \<Rightarrow> error + Repo) option"

datatype ExternalServiceMode =
  ExternalServiceModeDisabled | ExternalServiceModePublic | ExternalServiceModeAll

text \<open>
  The store operations the file calls, over a database state \<open>'st\<close>. A read returns an
  error or its result; a write returns an error or the new state.
  \<open>CreateExternalServiceRepo\<close> and \<open>UpdateExternalServiceRepo\<close> also return the repo as
  the store left it (they fill in the ID and the timestamps of the repo they are
  given); \<open>DeleteExternalServiceReposNotIn\<close> is best effort and returns the IDs it
  deleted together with an error, if any. \<open>RepoList\<close> is \<^verbatim>\<open>RepoStore.List\<close> with one
  name and one external repo spec, \<^verbatim>\<open>UseOr\<close>, \<^verbatim>\<open>IncludeBlocked\<close> and
  \<^verbatim>\<open>IncludeDeleted\<close>; \<open>ExternalServiceList\<close> is \<^verbatim>\<open>ExternalServiceStore.List\<close> with
  the kinds, \<^verbatim>\<open>OnlyCloudDefault\<close> and a limit of one.
\<close>

record 'st Store =
  Transact :: "'st \<Rightarrow> error + 'st"
  Commit :: "'st \<Rightarrow> error option"
  GetByID :: "'st \<Rightarrow> int \<Rightarrow> error + ExternalService"
  ExternalServiceList :: "'st \<Rightarrow> string list \<Rightarrow> bool \<Rightarrow> error + ExternalService list"
  Upsert :: "'st \<Rightarrow> ExternalService \<Rightarrow> error + 'st"
  UserAllowedExternalServices :: "'st \<Rightarrow> int \<Rightarrow> error + ExternalServiceMode"
  GetByName :: "'st \<Rightarrow> string \<Rightarrow> error + Repo"
  RepoList :: "'st \<Rightarrow> string \<Rightarrow> ExternalRepoSpec \<Rightarrow> error + Repo list"
  RepoDelete :: "'st \<Rightarrow> int \<Rightarrow> error + 'st"
  UpdateExternalServiceRepo :: "'st \<Rightarrow> ExternalService \<Rightarrow> Repo \<Rightarrow> error + 'st \<times> Repo"
  CreateExternalServiceRepo :: "'st \<Rightarrow> ExternalService \<Rightarrow> Repo \<Rightarrow> error + 'st \<times> Repo"
  CountNamespacedRepos :: "'st \<Rightarrow> int \<Rightarrow> int \<Rightarrow> error + int"
  DeleteExternalServiceReposNotIn ::
    "'st \<Rightarrow> ExternalService \<Rightarrow> int set \<Rightarrow> int list \<times> error option \<times> 'st"
  DeleteExternalServiceRepo :: "'st \<Rightarrow> ExternalService \<Rightarrow> int \<Rightarrow> error + 'st"

text \<open>
  The \<^verbatim>\<open>Syncer\<close> struct. \<open>Synced\<close> says whether the channel is non-nil; what is sent
  on it is recorded in the trace below. \<open>Now\<close> is the clock's reading during the call.
  The last four fields are the package-level collaborators the file reads:
  \<^verbatim>\<open>conf.UserReposMaxPerUser()\<close>, \<^verbatim>\<open>conf.UserReposMaxPerSite()\<close>,
  \<^verbatim>\<open>extsvc.CodeHostOf(name, extsvc.PublicCodeHosts...)\<close> and \<^verbatim>\<open>extsvc.TypeToKind\<close>.
\<close>

record 'st Syncer =
  Sourcer :: "ExternalService \<Rightarrow> error + Source"
  Store :: "'st Store"
  Synced :: bool
  Now :: Time
  UserReposMaxPerUser :: int
  UserReposMaxPerSite :: int
  confUserReposMaxPerUser :: int
  confUserReposMaxPerSite :: int
  CodeHostOf :: "string \<Rightarrow> CodeHost option"
  TypeToKind :: "string \<Rightarrow> string"

subsection \<open>Effects\<close>

text \<open>
  The state a call works on is the database and a trace of what the call did to its
  surroundings, in order: an error written with \<^verbatim>\<open>s.log().Error\<close>, a transaction
  committed by \<^verbatim>\<open>tx.Done\<close>, a Diff sent on \<^verbatim>\<open>s.Synced\<close>, a source asked to stream
  (\<^verbatim>\<open>ListRepos\<close>, with the service's ID) or asked for one repo (\<^verbatim>\<open>GetRepo\<close>, with
  the path), and a call of \<^verbatim>\<open>DeleteExternalServiceReposNotIn\<close> (with the seen set
  and the IDs it deleted).
\<close>

datatype event =
    LogError error
  | Committed
  | Sent Diff
  | Listed int
  | Fetched string
  | Pruned "int set" "int list"

record 'st world =
  db :: 'st
  trace :: "event list"

definition emit :: "event \<Rightarrow> 'st world \<Rightarrow> 'st world" where
  "emit e w = w\<lparr>trace := trace w @ [e]\<rparr>"

text \<open>
  A call returns its results or panics. \<open>ctxDone\<close> says whether the call's context is
  cancelled; the \<^verbatim>\<open>select\<close> between \<^verbatim>\<open>ctx.Done()\<close> and the send on
  \<^verbatim>\<open>s.Synced\<close> sends when the context is live.
\<close>

datatype 'a outcome = Returned 'a | Panicked string

definition send :: "bool \<Rightarrow> Diff \<Rightarrow> 'st world \<Rightarrow> 'st world" where
  "send ctxDone d w = (if ctxDone then w else emit (Sent d) w)"

definition notifyDeleted :: "'st Syncer \<Rightarrow> bool \<Rightarrow> int list \<Rightarrow> 'st world \<Rightarrow> 'st world" where
  "notifyDeleted s ctxDone deleted w =
     (let d = emptyDiff\<lparr>Deleted := map (\<lambda>id. zeroRepo\<lparr>ID := id\<rparr>) deleted\<rparr>
      in if Synced s \<and> Len d > 0 then send ctxDone d w else w)"

text \<open>
  Modelled from the spec: \<^verbatim>\<open>Store.Done\<close> (package basestore) is not part of the
  file. The store is transactional with commit and rollback: \<^verbatim>\<open>tx.Done(err)\<close> with
  an error rolls the transaction back and returns the error; with no error it commits,
  and a failed commit leaves the database as it was. \<open>db0\<close> is the database before the
  transaction and \<open>tx\<close> the state the transaction reached.
\<close>

definition Done :: "'st Store \<Rightarrow> 'st \<Rightarrow> 'st \<Rightarrow> error option \<Rightarrow> error option \<times> 'st" where
  "Done S db0 tx err =
     (case err of
        Some e \<Rightarrow> (Some e, db0)
      | None \<Rightarrow> (case Commit S tx of Some e \<Rightarrow> (Some e, db0) | None \<Rightarrow> (None, tx)))"

subsection \<open>The per-repo apply\<close>

text \<open>\<^verbatim>\<open>uint64(n)\<close> of an \<^verbatim>\<open>int\<close>.\<close>

definition uint64 :: "int \<Rightarrow> int" where
  "uint64 n = n mod 2 ^ 64"

definition userReposMaxPerSite :: "'st Syncer \<Rightarrow> int" where
  "userReposMaxPerSite s =
     (let n = uint64 (UserReposMaxPerSite s)
      in if n > 0 then n else uint64 (confUserReposMaxPerSite s))"

definition userReposMaxPerUser :: "'st Syncer \<Rightarrow> int" where
  "userReposMaxPerUser s =
     (if UserReposMaxPerUser s = 0 then uint64 (confUserReposMaxPerUser s)
      else uint64 (UserReposMaxPerUser s))"

text \<open>
  The bodies of the three cases of the \<^verbatim>\<open>switch\<close> in \<^verbatim>\<open>sync\<close>, on the state of
  the open transaction. Each returns the named results \<^verbatim>\<open>(d, err)\<close>, or panics, and
  the state the transaction is in.
\<close>

definition sync_create ::
  "'st Syncer \<Rightarrow> ExternalService \<Rightarrow> Repo \<Rightarrow> 'st \<Rightarrow> (Diff \<times> error option) outcome \<times> 'st" where
  "sync_create s svc sourced tx =
     (case CreateExternalServiceRepo (Store s) tx svc sourced of
        Inl e \<Rightarrow>
          (Returned (emptyDiff, Some (Wrap e ''syncer: failed to create external service repo'')), tx)
      | Inr (tx', r) \<Rightarrow> (Returned (emptyDiff\<lparr>Added := [r]\<rparr>, None), tx'))"

definition sync_case0 ::
  "'st Syncer \<Rightarrow> ExternalService \<Rightarrow> Repo \<Rightarrow> 'st \<Rightarrow> (Diff \<times> error option) outcome \<times> 'st" where
  "sync_case0 s svc sourced tx =
     (if \<not> IsSiteOwned svc then
        (case CountNamespacedRepos (Store s) tx 0 0 of
           Inl e \<Rightarrow> (Returned (emptyDiff, Some (Wrap e ''counting total user added repos'')), tx)
         | Inr siteAdded \<Rightarrow>
             (case CountNamespacedRepos (Store s) tx (NamespaceUserID svc) (NamespaceOrgID svc) of
                Inl e \<Rightarrow>
                  (Returned (emptyDiff,
                     Some (Wrap e ''counting repos added by user or organization'')), tx)
              | Inr userAdded \<Rightarrow>
                  (let userLimit = userReposMaxPerUser s; siteLimit = userReposMaxPerSite s
                   in if siteAdded \<ge> siteLimit \<or> userAdded \<ge> userLimit then
                        (Returned (emptyDiff,
                           Some (RepoLimitError siteAdded siteLimit userAdded userLimit
                                   (NamespaceUserID svc) (NamespaceOrgID svc))), tx)
                      else sync_create s svc sourced tx)))
      else sync_create s svc sourced tx)"

definition sync_case1 ::
  "'st Syncer \<Rightarrow> ExternalService \<Rightarrow> Repo \<Rightarrow> Repo \<Rightarrow> 'st \<Rightarrow>
     (Diff \<times> error option) outcome \<times> 'st" where
  "sync_case1 s svc sourced stored0 tx =
     (case Update stored0 sourced of
        (modified, r) \<Rightarrow>
          if \<not> modified then (Returned (emptyDiff\<lparr>Unmodified := [r]\<rparr>, None), tx)
          else
            (case UpdateExternalServiceRepo (Store s) tx svc r of
               Inl e \<Rightarrow>
                 (Returned (emptyDiff,
                    Some (Wrap e ''syncer: failed to update external service repo'')), tx)
             | Inr (tx', r') \<Rightarrow> (Returned (emptyDiff\<lparr>Modified := [r']\<rparr>, None), tx')))"

text \<open>
  The loop of case 2 over the stored rows: the last row with the sourced repo's
  external repo spec is \<^verbatim>\<open>existing\<close>, the last other row is \<^verbatim>\<open>conflicting\<close>.
\<close>

fun pick :: "Repo \<Rightarrow> Repo list \<Rightarrow> Repo option \<times> Repo option \<Rightarrow> Repo option \<times> Repo option" where
  "pick sourced [] (existing, conflicting) = (existing, conflicting)"
| "pick sourced (r # rs) (existing, conflicting) =
     (if Equal (ExternalRepo r) (ExternalRepo sourced) then pick sourced rs (Some r, conflicting)
      else pick sourced rs (existing, Some r))"

definition sync_case2 ::
  "'st Syncer \<Rightarrow> ExternalService \<Rightarrow> Repo \<Rightarrow> Repo list \<Rightarrow> 'st \<Rightarrow>
     (Diff \<times> error option) outcome \<times> 'st" where
  "sync_case2 s svc sourced stored tx =
     (case pick sourced stored (None, None) of
        (existing, conflicting) \<Rightarrow>
          (case conflicting of
             None \<Rightarrow> (Panicked ''nil pointer dereference'', tx)
           | Some c \<Rightarrow>
               (case RepoDelete (Store s) tx (ID c) of
                  Inl e \<Rightarrow>
                    (Returned (emptyDiff,
                       Some (Wrap e ''syncer: failed to delete conflicting repo'')), tx)
                | Inr tx' \<Rightarrow>
                    (case existing of
                       None \<Rightarrow> (Panicked ''nil pointer dereference'', tx')
                     | Some r \<Rightarrow> sync_case1 s svc sourced r tx'))))"

definition sync_tx ::
  "'st Syncer \<Rightarrow> ExternalService \<Rightarrow> Repo \<Rightarrow> 'st \<Rightarrow> (Diff \<times> error option) outcome \<times> 'st" where
  "sync_tx s svc sourced tx =
     (case RepoList (Store s) tx (Name sourced) (ExternalRepo sourced) of
        Inl e \<Rightarrow>
          (Returned (emptyDiff, Some (Wrap e ''syncer: getting repo from the database'')), tx)
      | Inr stored \<Rightarrow>
          if length stored = 2 then sync_case2 s svc sourced stored tx
          else if length stored = 1 then sync_case1 s svc sourced (hd stored) tx
          else if length stored = 0 then sync_case0 s svc sourced tx
          else (Panicked ''unreachable'', tx))"

text \<open>
  The deferred function of \<^verbatim>\<open>sync\<close>: \<^verbatim>\<open>tx.Done(err)\<close> first, and only when it
  returns no error the Diff is sent on \<^verbatim>\<open>s.Synced\<close> (when the channel is set and
  the Diff is not empty). The metrics of \<^verbatim>\<open>observeDiff\<close> are left out.
\<close>

definition sync_deferred ::
  "'st Syncer \<Rightarrow> bool \<Rightarrow> 'st \<Rightarrow> Diff \<Rightarrow> error option \<Rightarrow> 'st world \<Rightarrow> error option \<times> 'st world" where
  "sync_deferred s ctxDone tx d err w =
     (case Done (Store s) (db w) tx err of
        (Some e, db') \<Rightarrow> (Some e, w\<lparr>db := db'\<rparr>)
      | (None, db') \<Rightarrow>
          (let w' = emit Committed (w\<lparr>db := db'\<rparr>)
           in if Synced s \<and> Len d > 0 then (None, send ctxDone d w') else (None, w')))"

text \<open>
  \<^verbatim>\<open>sync\<close>. When the body panics the deferred function still runs, with the named
  results as they are then: the empty Diff and no error.
\<close>

definition sync ::
  "'st Syncer \<Rightarrow> bool \<Rightarrow> ExternalService \<Rightarrow> Repo \<Rightarrow> 'st world \<Rightarrow>
     (Diff \<times> error option) outcome \<times> 'st world" where
  "sync s ctxDone svc sourced w =
     (case Transact (Store s) (db w) of
        Inl e \<Rightarrow> (Returned (emptyDiff, Some (Wrap e ''syncer: opening transaction'')), w)
      | Inr tx0 \<Rightarrow>
          (case sync_tx s svc sourced tx0 of
             (Returned (d, err), tx) \<Rightarrow>
               (case sync_deferred s ctxDone tx d err w of
                  (err', w') \<Rightarrow> (Returned (d, err'), w'))
           | (Panicked msg, tx) \<Rightarrow>
               (case sync_deferred s ctxDone tx emptyDiff None w of
                  (err', w') \<Rightarrow> (Panicked msg, w'))))"

subsection \<open>The streaming pass\<close>

definition fatal :: "error \<Rightarrow> bool" where
  "fatal err \<longleftrightarrow> IsUnauthorized err \<or> IsForbidden err \<or> IsAccountSuspended err"

text \<open>
  The variables of the loop over the source's results: \<^verbatim>\<open>modified\<close>, \<^verbatim>\<open>seen\<close>
  and \<^verbatim>\<open>errs\<close>, the state of the surroundings, and how the loop was left: at the end
  of the stream (\<open>Running\<close>), by a \<^verbatim>\<open>break\<close> (\<open>Broke\<close>) or by a panic of \<^verbatim>\<open>sync\<close>.
\<close>

datatype loop_status = Running | Broke | LoopPanicked string

record 'st loop_state =
  modified :: bool
  seen :: "int set"
  errs :: "error option"
  world :: "'st world"
  status :: loop_status

fun consume ::
  "'st Syncer \<Rightarrow> bool \<Rightarrow> ExternalService \<Rightarrow> (Repo \<Rightarrow> bool) \<Rightarrow> SourceResult list \<Rightarrow>
     'st loop_state \<Rightarrow> 'st loop_state" where
  "consume s ctxDone svc allowed [] ls = ls"
| "consume s ctxDone svc allowed (SourceErr err # rest) ls =
     (let ls1 = ls\<lparr>world := emit (LogError err) (world ls),
                   errs := Append (errs ls)
                     (Wrap err (''fetching from code host '' @ DisplayName svc))\<rparr>
      in if fatal err then ls1\<lparr>seen := {}, status := Broke\<rparr>
         else consume s ctxDone svc allowed rest ls1)"
| "consume s ctxDone svc allowed (SourcedRepo sourced # rest) ls =
     (if \<not> allowed sourced then consume s ctxDone svc allowed rest ls
      else
        (case sync s ctxDone svc sourced (world ls) of
           (Panicked msg, w') \<Rightarrow> ls\<lparr>world := w', status := LoopPanicked msg\<rparr>
         | (Returned (diff, Some err), w') \<Rightarrow>
             (let ls1 = ls\<lparr>world := emit (LogError err) w', errs := Append (errs ls) err\<rparr>
              in if HasType_RepoLimitError err then ls1\<lparr>status := Broke\<rparr>
                 else consume s ctxDone svc allowed rest ls1)
         | (Returned (diff, None), w') \<Rightarrow>
             consume s ctxDone svc allowed rest
               (ls\<lparr>world := w',
                   seen := seen ls \<union> ID ` set (Repos diff),
                   modified := (modified ls \<or> length (Modified diff) + length (Added diff) > 0)\<rparr>)))"

text \<open>\<^verbatim>\<open>Syncer.delete\<close>: the number of deleted repos, the store's error and the new state.\<close>

definition delete ::
  "'st Syncer \<Rightarrow> bool \<Rightarrow> ExternalService \<Rightarrow> int set \<Rightarrow> 'st world \<Rightarrow>
     nat \<times> error option \<times> 'st world" where
  "delete s ctxDone svc seen0 w =
     (case DeleteExternalServiceReposNotIn (Store s) (db w) svc seen0 of
        (deleted, err, db') \<Rightarrow>
          (length deleted, err,
           notifyDeleted s ctxDone deleted (emit (Pruned seen0 deleted) (w\<lparr>db := db'\<rparr>))))"

text \<open>
  The block after the loop that deletes the repos not seen: the number of deleted
  repos, the aggregate error and the new state.
\<close>

definition prune ::
  "'st Syncer \<Rightarrow> bool \<Rightarrow> ExternalService \<Rightarrow> 'st loop_state \<Rightarrow> nat \<times> error option \<times> 'st world" where
  "prune s ctxDone svc ls =
     (if (case errs ls of None \<Rightarrow> True | Some e \<Rightarrow> \<not> IsSiteOwned svc \<and> fatal e) then
        (case delete s ctxDone svc (seen ls) (world ls) of
           (deleted, deletedErr, w') \<Rightarrow>
             (deleted,
              (case deletedErr of
                 None \<Rightarrow> errs ls
               | Some e \<Rightarrow> Append (errs ls) (Wrap e ''some repos couldn't be deleted'')),
              w'))
      else (0, errs ls, world ls))"

text \<open>The end of the pass: the backoff, the two timestamps and the upsert.\<close>

definition complete ::
  "'st Syncer \<Rightarrow> ExternalService \<Rightarrow> Duration \<Rightarrow> bool \<Rightarrow> nat \<Rightarrow> error option \<Rightarrow> 'st world \<Rightarrow>
     error option \<times> 'st world" where
  "complete s svc minSyncInterval modified0 deleted errs0 w =
     (let now = Now s;
          modified1 = (modified0 \<or> deleted > 0);
          interval = calcSyncInterval now (LastSyncAt svc) minSyncInterval modified1 errs0;
          svc' = svc\<lparr>NextSyncAt := Add now interval, LastSyncAt := now\<rparr>
      in case Upsert (Store s) (db w) svc' of
           Inl e \<Rightarrow> (Append errs0 (Wrap e ''upserting external service''), w)
         | Inr db' \<Rightarrow> (errs0, w\<lparr>db := db'\<rparr>))"

text \<open>
  The filter \<^verbatim>\<open>allowed\<close>: a user's service syncs public repos only, unless the
  user may add private code.
\<close>

definition allowedFor ::
  "'st Syncer \<Rightarrow> ExternalService \<Rightarrow> 'st \<Rightarrow> error + (Repo \<Rightarrow> bool)" where
  "allowedFor s svc d =
     (if NamespaceUserID svc \<noteq> 0 then
        (case UserAllowedExternalServices (Store s) d (NamespaceUserID svc) of
           Inl e \<Rightarrow> Inl (Wrap e ''checking if user can add private code'')
         | Inr mode \<Rightarrow>
             if mode \<noteq> ExternalServiceModeAll then Inr (\<lambda>r. \<not> Private r) else Inr (\<lambda>r. True))
      else Inr (\<lambda>r. True))"

text \<open>The variables at the start of the loop, once the source was asked to stream.\<close>

definition loop_init :: "ExternalService \<Rightarrow> 'st world \<Rightarrow> 'st loop_state" where
  "loop_init svc w =
     \<lparr>modified = False, seen = {}, errs = None,
      world = emit (Listed (ExternalService.ID svc)) w, status = Running\<rparr>"

definition SyncExternalService ::
  "'st Syncer \<Rightarrow> bool \<Rightarrow> int \<Rightarrow> Duration \<Rightarrow> 'st world \<Rightarrow> error option outcome \<times> 'st world" where
  "SyncExternalService s ctxDone externalServiceID minSyncInterval w =
     (case GetByID (Store s) (db w) externalServiceID of
        Inl e \<Rightarrow> (Returned (Some (Wrap e ''fetching external services'')), w)
      | Inr svc \<Rightarrow>
          if CloudDefault svc then (Returned (Some ErrCloudDefaultSync), w)
          else
            (case allowedFor s svc (db w) of
               Inl e \<Rightarrow> (Returned (Some e), w)
             | Inr allowed \<Rightarrow>
                 (case Sourcer s svc of
                    Inl e \<Rightarrow> (Returned (Some e), w)
                  | Inr src \<Rightarrow>
                      (let ls = consume s ctxDone svc allowed (ListRepos src) (loop_init svc w)
                       in case status ls of
                            LoopPanicked msg \<Rightarrow> (Panicked msg, world ls)
                          | _ \<Rightarrow>
                              (case prune s ctxDone svc ls of
                                 (deleted, errs1, w1) \<Rightarrow>
                                   (case complete s svc minSyncInterval (modified ls)
                                           deleted errs1 w1 of
                                      (errs2, w2) \<Rightarrow> (Returned errs2, w2)))))))"

subsection \<open>The lazy single-repo path\<close>

text \<open>\<^verbatim>\<open>strings.TrimPrefix\<close>.\<close>

definition TrimPrefix :: "string \<Rightarrow> string \<Rightarrow> string" where
  "TrimPrefix str p = (if prefix p str then drop (length p) str else str)"

text \<open>
  The deferred function of \<^verbatim>\<open>syncRepo\<close>, registered when a stored repo was given:
  on an error of the not-found, unauthorized, forbidden or account-suspended class the
  stored repo is deleted (a failure of the deletion is logged) and the deletion is
  notified.
\<close>

definition syncRepo_deferred ::
  "'st Syncer \<Rightarrow> bool \<Rightarrow> ExternalService \<Rightarrow> Repo \<Rightarrow> error option \<Rightarrow> 'st world \<Rightarrow> 'st world" where
  "syncRepo_deferred s ctxDone svc stored err w =
     (case err of
        None \<Rightarrow> w
      | Some e \<Rightarrow>
          if IsNotFound e \<or> IsUnauthorized e \<or> IsForbidden e \<or> IsAccountSuspended e then
            (let w1 = (case DeleteExternalServiceRepo (Store s) (db w) svc (ID stored) of
                         Inl err2 \<Rightarrow> emit (LogError err2) w
                       | Inr db' \<Rightarrow> w\<lparr>db := db'\<rparr>)
             in notifyDeleted s ctxDone [ID stored] w1)
          else w)"

text \<open>
  The part of \<^verbatim>\<open>syncRepo\<close> after the deferred function is registered: the live
  fetch, the privacy check and the apply. The repo returned is the pointer given to
  \<^verbatim>\<open>sync\<close>, which is the repo of \<^verbatim>\<open>Added\<close> when the repo was created.
\<close>

definition syncRepo_fetch ::
  "'st Syncer \<Rightarrow> bool \<Rightarrow> ExternalService \<Rightarrow> (string \<Rightarrow> error + Repo) \<Rightarrow> string \<Rightarrow> string \<Rightarrow>
     'st world \<Rightarrow> (Repo option \<times> error option) outcome \<times> 'st world" where
  "syncRepo_fetch s ctxDone svc rg name path w =
     (case rg path of
        Inl e \<Rightarrow> (Returned (None, Some e), emit (Fetched path) w)
      | Inr repo \<Rightarrow>
          if Private repo then (Returned (None, Some (RepoNotFoundErr name)), emit (Fetched path) w)
          else
            (case sync s ctxDone svc repo (emit (Fetched path) w) of
               (Panicked msg, w') \<Rightarrow> (Panicked msg, w')
             | (Returned (d, Some e), w') \<Rightarrow> (Returned (None, Some e), w')
             | (Returned (d, None), w') \<Rightarrow>
                 (Returned (Some (case Added d of [r] \<Rightarrow> r | _ \<Rightarrow> repo), None), w')))"

definition syncRepo ::
  "'st Syncer \<Rightarrow> bool \<Rightarrow> CodeHost \<Rightarrow> string \<Rightarrow> Repo option \<Rightarrow> 'st world \<Rightarrow>
     (Repo option \<times> error option) outcome \<times> 'st world" where
  "syncRepo s ctxDone codehost name stored w =
     (case ExternalServiceList (Store s) (db w) [TypeToKind s (CodeHost.ServiceType codehost)]
             (\<not> IsPackageHost codehost) of
        Inl e \<Rightarrow> (Returned (None, Some (Wrap e ''listing external services'')), w)
      | Inr svcs \<Rightarrow>
          if length svcs \<noteq> 1 then
            (Returned (None, Some (Wrap (RepoNotFoundErr name)
               (''cloud default external service of type '' @ CodeHost.ServiceType codehost @
                '' not found''))), w)
          else
            (let svc = hd svcs
             in case Sourcer s svc of
                  Inl e \<Rightarrow> (Returned (None, Some e), w)
                | Inr src \<Rightarrow>
                    (case GetRepo src of
                       None \<Rightarrow>
                         (Returned (None, Some (Wrap (RepoNotFoundErr name)
                            (''can't get repo metadata for service of type '' @
                             CodeHost.ServiceType codehost))), w)
                     | Some rg \<Rightarrow>
                         (let path = TrimPrefix name
                                       (TrimPrefix (CodeHost.ServiceID codehost) ''https://'')
                          in case syncRepo_fetch s ctxDone svc rg name path w of
                               (Panicked msg, w') \<Rightarrow> (Panicked msg, w')
                             | (Returned (repo, err), w') \<Rightarrow>
                                 (case stored of
                                    None \<Rightarrow> (Returned (repo, err), w')
                                  | Some st \<Rightarrow>
                                      (Returned (repo, err),
                                       syncRepo_deferred s ctxDone svc st err w'))))))"

text \<open>
  \<^verbatim>\<open>SyncRepo\<close>. The call is taken alone: \<^verbatim>\<open>syncGroup.Do\<close> runs its function, and
  the goroutine of the background mode, which has a live context of its own, has run
  when the call is over.
\<close>

definition SyncRepo ::
  "'st Syncer \<Rightarrow> bool \<Rightarrow> string \<Rightarrow> bool \<Rightarrow> 'st world \<Rightarrow>
     (Repo option \<times> error option) outcome \<times> 'st world" where
  "SyncRepo s ctxDone name background w =
     (case (case GetByName (Store s) (db w) name of
              Inl e \<Rightarrow> if \<not> IsNotFound e then Inl e else Inr None
            | Inr r \<Rightarrow> Inr (Some r)) of
        Inl e \<Rightarrow> (Returned (None, Some e), w)
      | Inr repo \<Rightarrow>
          (case CodeHostOf s name of
             None \<Rightarrow>
               (case repo of
                  Some r \<Rightarrow> (Returned (Some r, None), w)
                | None \<Rightarrow> (Returned (None, Some (RepoNotFoundErr name)), w))
           | Some codehost \<Rightarrow>
               if (case repo of Some r \<Rightarrow> Private r | None \<Rightarrow> False) then
                 (Returned (None, Some (RepoNotFoundErr name)), w)
               else if (case repo of Some r \<Rightarrow> Sub (Now s) (UpdatedAt r) < Minute | None \<Rightarrow> False) then
                 (Returned (repo, None), w)
               else if background \<and> repo \<noteq> None then
                 (case syncRepo s False codehost name repo w of
                    (Panicked msg, w') \<Rightarrow> (Panicked msg, w')
                  | (Returned (updatedRepo, err), w') \<Rightarrow> (Returned (repo, None), w'))
               else
                 (case syncRepo s ctxDone codehost name repo w of
                    (Panicked msg, w') \<Rightarrow> (Panicked msg, w')
                  | (Returned (updatedRepo, Some e), w') \<Rightarrow> (Returned (None, Some e), w')
                  | (Returned (updatedRepo, None), w') \<Rightarrow> (Returned (updatedRepo, None), w'))))"

subsection \<open>A reference store\<close>

text \<open>
  Modelled from the spec: the store (packages repos and database) is not part of the
  file. The reference store is the transactional CRUD the spec describes, with no
  failures: repo rows, each owned by one external service, and the external service
  records. It is the store of the examples below; the theorems are about every store.
\<close>

record RefDB =
  rows :: "(Repo \<times> int) list"
  services :: "ExternalService list"

definition refGetByID :: "RefDB \<Rightarrow> int \<Rightarrow> error + ExternalService" where
  "refGetByID d i =
     (case filter (\<lambda>svc. ExternalService.ID svc = i) (services d) of
        [] \<Rightarrow> Inl (Errorf ''external service not found'')
      | svc # _ \<Rightarrow> Inr svc)"

definition refExternalServiceList ::
  "RefDB \<Rightarrow> string list \<Rightarrow> bool \<Rightarrow> error + ExternalService list" where
  "refExternalServiceList d kinds onlyCloudDefault =
     Inr (take 1 (filter (\<lambda>svc. Kind svc \<in> set kinds \<and> (CloudDefault svc \<or> \<not> onlyCloudDefault))
                    (services d)))"

definition refUpsert :: "RefDB \<Rightarrow> ExternalService \<Rightarrow> error + RefDB" where
  "refUpsert d svc =
     Inr (d\<lparr>services :=
            svc # filter (\<lambda>x. ExternalService.ID x \<noteq> ExternalService.ID svc) (services d)\<rparr>)"

definition refGetByName :: "RefDB \<Rightarrow> string \<Rightarrow> error + Repo" where
  "refGetByName d n =
     (case filter (\<lambda>r. Name r = n) (map fst (rows d)) of
        [] \<Rightarrow> Inl (RepoNotFoundErr n)
      | r # _ \<Rightarrow> Inr r)"

definition refRepoList :: "RefDB \<Rightarrow> string \<Rightarrow> ExternalRepoSpec \<Rightarrow> error + Repo list" where
  "refRepoList d n spec =
     Inr (filter (\<lambda>r. Name r = n \<or> Equal (ExternalRepo r) spec) (map fst (rows d)))"

definition refRepoDelete :: "RefDB \<Rightarrow> int \<Rightarrow> error + RefDB" where
  "refRepoDelete d i = Inr (d\<lparr>rows := filter (\<lambda>row. ID (fst row) \<noteq> i) (rows d)\<rparr>)"

definition refUpdate :: "RefDB \<Rightarrow> ExternalService \<Rightarrow> Repo \<Rightarrow> error + RefDB \<times> Repo" where
  "refUpdate d svc r =
     Inr (d\<lparr>rows := map (\<lambda>row. if ID (fst row) = ID r then (r, snd row) else row) (rows d)\<rparr>, r)"

definition refCreate :: "RefDB \<Rightarrow> ExternalService \<Rightarrow> Repo \<Rightarrow> error + RefDB \<times> Repo" where
  "refCreate d svc r =
     (let r' = r\<lparr>ID := 1 + foldr max (map (\<lambda>row. ID (fst row)) (rows d)) 0\<rparr>
      in Inr (d\<lparr>rows := rows d @ [(r', ExternalService.ID svc)]\<rparr>, r'))"

definition refCount :: "RefDB \<Rightarrow> int \<Rightarrow> int \<Rightarrow> error + int" where
  "refCount d userID orgID =
     Inr (int (length (filter
       (\<lambda>row. list_ex (\<lambda>svc. ExternalService.ID svc = snd row \<and>
                  (if userID = 0 \<and> orgID = 0 then \<not> IsSiteOwned svc
                   else NamespaceUserID svc = userID \<and> NamespaceOrgID svc = orgID))
                (services d))
       (rows d))))"

definition refDeleteNotIn ::
  "RefDB \<Rightarrow> ExternalService \<Rightarrow> int set \<Rightarrow> int list \<times> error option \<times> RefDB" where
  "refDeleteNotIn d svc seen0 =
     (map (\<lambda>row. ID (fst row))
        (filter (\<lambda>row. snd row = ExternalService.ID svc \<and> ID (fst row) \<notin> seen0) (rows d)),
      None,
      d\<lparr>rows := filter (\<lambda>row. snd row \<noteq> ExternalService.ID svc \<or> ID (fst row) \<in> seen0) (rows d)\<rparr>)"

definition refDeleteRepo :: "RefDB \<Rightarrow> ExternalService \<Rightarrow> int \<Rightarrow> error + RefDB" where
  "refDeleteRepo d svc i =
     Inr (d\<lparr>rows := filter (\<lambda>row. snd row \<noteq> ExternalService.ID svc \<or> ID (fst row) \<noteq> i) (rows d)\<rparr>)"

definition refStore :: "RefDB Store" where
  "refStore =
     \<lparr>Transact = (\<lambda>d. Inr d),
      Commit = (\<lambda>d. None),
      GetByID = refGetByID,
      ExternalServiceList = refExternalServiceList,
      Upsert = refUpsert,
      UserAllowedExternalServices = (\<lambda>d u. Inr ExternalServiceModePublic),
      GetByName = refGetByName,
      RepoList = refRepoList,
      RepoDelete = refRepoDelete,
      UpdateExternalServiceRepo = refUpdate,
      CreateExternalServiceRepo = refCreate,
      CountNamespacedRepos = refCount,
      DeleteExternalServiceReposNotIn = refDeleteNotIn,
      DeleteExternalServiceRepo = refDeleteRepo\<rparr>"

text \<open>
  The values of the examples: a user's GitHub service, the site's service, a code host,
  a syncer over the reference store with a source per service, and three repos.
\<close>

definition userSvc :: ExternalService where
  "userSvc =
     \<lparr>ExternalService.ID = 7, Kind = ''GITHUB'', DisplayName = ''GitHub'',
      NamespaceUserID = 42, NamespaceOrgID = 0, CloudDefault = False,
      LastSyncAt = 0, NextSyncAt = 0\<rparr>"

definition siteSvc :: ExternalService where
  "siteSvc = userSvc\<lparr>ExternalService.ID := 8, NamespaceUserID := 0\<rparr>"

definition cloudSvc :: ExternalService where
  "cloudSvc = siteSvc\<lparr>ExternalService.ID := 9, CloudDefault := True\<rparr>"

definition github :: CodeHost where
  "github =
     \<lparr>CodeHost.ServiceID = ''https://github.com/'', CodeHost.ServiceType = ''github'',
      IsPackageHost = False\<rparr>"

definition mkRepo :: "int \<Rightarrow> string \<Rightarrow> string \<Rightarrow> Repo" where
  "mkRepo i n x =
     \<lparr>ID = i, Name = n,
      ExternalRepo = \<lparr>ExternalRepoSpec.ID = x, ServiceType = ''github'',
                      ServiceID = ''https://github.com/''\<rparr>,
      Private = False, UpdatedAt = 0\<rparr>"

definition exSyncer :: "(ExternalService \<Rightarrow> error + Source) \<Rightarrow> RefDB Syncer" where
  "exSyncer sourcer =
     \<lparr>Sourcer = sourcer, Store = refStore, Synced = True, Now = 100 * Hour,
      UserReposMaxPerUser = 2, UserReposMaxPerSite = 0,
      confUserReposMaxPerUser = 2000, confUserReposMaxPerSite = 200000,
      CodeHostOf = (\<lambda>n. if prefix ''github.com/'' n then Some github else None),
      TypeToKind = (\<lambda>t. ''GITHUB'')\<rparr>"

definition exDB :: "(Repo \<times> int) list \<Rightarrow> RefDB" where
  "exDB rs = \<lparr>rows = rs, services = [userSvc, siteSvc, cloudSvc]\<rparr>"

definition exWorld :: "(Repo \<times> int) list \<Rightarrow> RefDB world" where
  "exWorld rs = \<lparr>db = exDB rs, trace = []\<rparr>"

definition exSource :: "SourceResult list \<Rightarrow> ExternalService \<Rightarrow> error + Source" where
  "exSource results svc = Inr \<lparr>ListRepos = results, GetRepo = None\<rparr>"

text \<open>The streams and the rows of the examples of a pass.\<close>

definition exResults :: "SourceResult list" where
  "exResults =
     [SourcedRepo (mkRepo 0 ''github.com/a/b'' ''1''), SourceErr ErrUnauthorized,
      SourcedRepo (mkRepo 0 ''github.com/a/c'' ''3'')]"

definition exRows :: "(Repo \<times> int) list" where
  "exRows =
     [(mkRepo 1 ''github.com/a/b'' ''1'', 7), (mkRepo 2 ''github.com/a/z'' ''2'', 7),
      (mkRepo 5 ''github.com/s/t'' ''5'', 8)]"

definition exLimitResults :: "SourceResult list" where
  "exLimitResults =
     [SourcedRepo (mkRepo 0 ''github.com/a/b'' ''1''), SourcedRepo (mkRepo 0 ''github.com/a/c'' ''3''),
      SourcedRepo (mkRepo 0 ''github.com/a/d'' ''4'')]"

text \<open>
  A source that reports the repo as private when asked for it, and a world that has
  no cloud-default service.
\<close>

definition exGetter :: "ExternalService \<Rightarrow> error + Source" where
  "exGetter svc =
     Inr \<lparr>ListRepos = [],
          GetRepo = Some (\<lambda>p. Inr ((mkRepo 0 ''github.com/a/b'' ''1'')\<lparr>Private := True\<rparr>))\<rparr>"

definition exNoCloud :: "RefDB world" where
  "exNoCloud =
     \<lparr>db = \<lparr>rows = [(mkRepo 1 ''github.com/a/b'' ''1'', 7)], services = [userSvc]\<rparr>, trace = []\<rparr>"

text \<open>
  A stream with a transient error and then a repo under the name of another stored repo,
  and the two stored repos, both of the site's service.
\<close>

definition exConflictResults :: "SourceResult list" where
  "exConflictResults =
     [SourceErr (Errorf ''boom''), SourcedRepo (mkRepo 0 ''github.com/a/new'' ''1'')]"

definition exConflictRows :: "(Repo \<times> int) list" where
  "exConflictRows =
     [(mkRepo 1 ''github.com/a/old'' ''1'', 8), (mkRepo 2 ''github.com/a/new'' ''2'', 8)]"


subsection \<open>Auxiliary notions\<close>

text \<open>A Diff of exactly one repo, which is added, modified or unmodified.\<close>

definition one_repo :: "Diff \<Rightarrow> bool" where
  "one_repo d \<longleftrightarrow>
     (\<exists>r. d = emptyDiff\<lparr>Added := [r]\<rparr> \<or> d = emptyDiff\<lparr>Modified := [r]\<rparr> \<or>
          d = emptyDiff\<lparr>Unmodified := [r]\<rparr>)"

text \<open>Whether the aggregate error of the pass is a fatal one (\<^verbatim>\<open>fatal(errs)\<close>).\<close>

definition fatal_opt :: "error option \<Rightarrow> bool" where
  "fatal_opt eo = (case eo of None \<Rightarrow> False | Some e \<Rightarrow> fatal e)"

text \<open>A stretch of the trace without a logged error and without a pruning.\<close>

definition quiet :: "event list \<Rightarrow> bool" where
  "quiet new \<longleftrightarrow> (\<forall>e. LogError e \<notin> set new) \<and> (\<forall>a b. Pruned a b \<notin> set new)"

text \<open>
  What the loop does between two of its states: it adds \<open>new\<close> to the trace, without a
  pruning; the aggregate error stays \<^verbatim>\<open>nil\<close> exactly when no error was logged, and
  becomes fatal exactly when a fatal error was logged.
\<close>

definition loop_rel :: "'st loop_state \<Rightarrow> 'st loop_state \<Rightarrow> event list \<Rightarrow> bool" where
  "loop_rel ls ls' new \<longleftrightarrow>
     trace (world ls') = trace (world ls) @ new \<and>
     (\<forall>a b. Pruned a b \<notin> set new) \<and>
     (errs ls' = None \<longleftrightarrow> errs ls = None \<and> (\<forall>e. LogError e \<notin> set new)) \<and>
     (fatal_opt (errs ls') \<longleftrightarrow> fatal_opt (errs ls) \<or> (\<exists>e. LogError e \<in> set new \<and> fatal e))"

section \<open>Properties\<close>

subsection \<open>Backoff\<close>

lemma eight_hours: "wrap64 (8 * Hour) = 28800000000000"
  by (simp add: wrap64_def Hour_def Minute_def Second_def Nanosecond_def)

lemma wrap64_id: "- (2 ^ 63) \<le> x \<Longrightarrow> x < 2 ^ 63 \<Longrightarrow> wrap64 x = x"
  by (simp add: wrap64_def)

lemma Sub_exact:
  "- (2 ^ 63) \<le> t - u \<Longrightarrow> t - u < 2 ^ 63 \<Longrightarrow> Sub t u = t - u"
  by (simp add: Sub_def Let_def maxDuration_def minDuration_def)

lemma calcSyncInterval_range:
  "minSyncInterval \<le> 8 * Hour \<Longrightarrow>
     minSyncInterval \<le> calcSyncInterval now lastSync minSyncInterval changed err \<and>
     calcSyncInterval now lastSync minSyncInterval changed err \<le> 8 * Hour"
  unfolding calcSyncInterval_def Let_def eight_hours
  by (simp add: Hour_def Minute_def Second_def Nanosecond_def)

lemma calcSyncInterval_backoff:
  assumes "\<not> (err = None \<and> (IsZero lastSync \<or> changed))"
    and "- (2 ^ 62) \<le> now - lastSync" and "now - lastSync < 2 ^ 62"
    and "minSyncInterval \<le> 8 * Hour"
  shows "calcSyncInterval now lastSync minSyncInterval changed err =
           max minSyncInterval (min (8 * Hour) (2 * (now - lastSync)))"
proof -
  have s: "Sub now lastSync = now - lastSync"
    using assms(2,3) by (intro Sub_exact) simp_all
  have w: "wrap64 ((now - lastSync) * 2) = 2 * (now - lastSync)"
    using assms(2,3) by (subst wrap64_id) simp_all
  show ?thesis
    using assms(1,4) unfolding calcSyncInterval_def Let_def eight_hours s w
    by (auto simp: Hour_def Minute_def Second_def Nanosecond_def)
qed

lemma calcSyncInterval_saturated:
  assumes "2 ^ 63 - 1 \<le> now - lastSync" and "- 2 < minSyncInterval"
  shows "calcSyncInterval now lastSync minSyncInterval changed err = minSyncInterval"
proof -
  have s: "Sub now lastSync = 2 ^ 63 - 1"
    using assms(1) by (auto simp: Sub_def Let_def maxDuration_def minDuration_def)
  have w: "wrap64 ((2 ^ 63 - 1) * 2) = - 2"
    by (simp add: wrap64_def)
  show ?thesis
    using assms(2) unfolding calcSyncInterval_def Let_def s w by simp
qed

text \<open>
  C2 (as the code has it). \<^verbatim>\<open>calcSyncInterval\<close> returns the minimum interval when
  the pass had no error and either there was no prior sync or the pass modified
  something. In every other case, also for a pass that modified something and
  recorded an error, it backs off: with a minimum of at most 8 hours and an elapsed
  time whose double fits an \<^verbatim>\<open>int64\<close>, the result is twice the elapsed time clamped
  to [minimum, 8 hours]. With a minimum of at most 8 hours the result always lies in
  [minimum, 8 hours]. When the elapsed time is more than a Duration can hold, as it is
  for a zero \<^verbatim>\<open>lastSync\<close> today, the saturated difference doubles to -2 nanoseconds
  and the minimum (when not negative) is returned, with or without errors.
\<close>

theorem calcSyncInterval_spec:
  "(err = None \<and> (IsZero lastSync \<or> changed) \<longrightarrow>
      calcSyncInterval now lastSync minSyncInterval changed err = minSyncInterval) \<and>
   (\<not> (err = None \<and> (IsZero lastSync \<or> changed)) \<and>
    - (2 ^ 62) \<le> now - lastSync \<and> now - lastSync < 2 ^ 62 \<and> minSyncInterval \<le> 8 * Hour \<longrightarrow>
      calcSyncInterval now lastSync minSyncInterval changed err =
        max minSyncInterval (min (8 * Hour) (2 * (now - lastSync)))) \<and>
   (minSyncInterval \<le> 8 * Hour \<longrightarrow>
      minSyncInterval \<le> calcSyncInterval now lastSync minSyncInterval changed err \<and>
      calcSyncInterval now lastSync minSyncInterval changed err \<le> 8 * Hour) \<and>
   (2 ^ 63 - 1 \<le> now - lastSync \<and> - 2 < minSyncInterval \<longrightarrow>
      calcSyncInterval now lastSync minSyncInterval changed err = minSyncInterval)"
proof (intro conjI impI)
  assume "err = None \<and> (IsZero lastSync \<or> changed)"
  then show "calcSyncInterval now lastSync minSyncInterval changed err = minSyncInterval"
    by (simp add: calcSyncInterval_def)
next
  assume a: "\<not> (err = None \<and> (IsZero lastSync \<or> changed)) \<and>
    - (2 ^ 62) \<le> now - lastSync \<and> now - lastSync < 2 ^ 62 \<and> minSyncInterval \<le> 8 * Hour"
  then show "calcSyncInterval now lastSync minSyncInterval changed err =
        max minSyncInterval (min (8 * Hour) (2 * (now - lastSync)))"
    by (intro calcSyncInterval_backoff) simp_all
next
  assume "minSyncInterval \<le> 8 * Hour"
  then show "minSyncInterval \<le> calcSyncInterval now lastSync minSyncInterval changed err"
    using calcSyncInterval_range by blast
next
  assume "minSyncInterval \<le> 8 * Hour"
  then show "calcSyncInterval now lastSync minSyncInterval changed err \<le> 8 * Hour"
    using calcSyncInterval_range by blast
next
  assume "2 ^ 63 - 1 \<le> now - lastSync \<and> - 2 < minSyncInterval"
  then show "calcSyncInterval now lastSync minSyncInterval changed err = minSyncInterval"
    using calcSyncInterval_saturated by blast
qed

text \<open>
  Witness for C2: a clean, unchanged pass one hour after the last sync, with a minimum
  of one minute, is scheduled two hours later; a first sync at the minimum, and so is a
  failed pass whose last sync is the zero time.
\<close>

theorem calcSyncInterval_spec_witness:
  "calcSyncInterval 0 0 Minute False None = Minute \<and>
   calcSyncInterval (2 ^ 64) 0 Minute False (Some (Errorf ''boom'')) = Minute \<and>
   calcSyncInterval (3 * Hour) (2 * Hour) Minute False None = 2 * Hour \<and>
   Minute \<le> calcSyncInterval (3 * Hour) (2 * Hour) Minute False None \<and>
   calcSyncInterval (3 * Hour) (2 * Hour) Minute False None \<le> 8 * Hour"
  using calcSyncInterval_spec [of None 0 False 0 Minute]
    calcSyncInterval_spec [of None "2 * Hour" False "3 * Hour" Minute]
    calcSyncInterval_spec [of "Some (Errorf ''boom'')" 0 False "2 ^ 64" Minute]
  by (simp add: IsZero_def Hour_def Minute_def Second_def Nanosecond_def)

text \<open>
  Counterexample to C2 as stated: a pass that modified something but also recorded an
  error, one hour after the last sync, is scheduled two hours later, not at the
  minimum of one minute.
\<close>

theorem calcSyncInterval_modified_counterexample:
  "calcSyncInterval (3 * Hour) (2 * Hour) Minute True (Some (Errorf ''boom'')) = 2 * Hour \<and>
   2 * Hour \<noteq> Minute"
  by (simp add: calcSyncInterval_def Sub_def wrap64_def IsZero_def maxDuration_def
      minDuration_def Hour_def Minute_def Second_def Nanosecond_def)

subsection \<open>Facts for the examples\<close>

lemmas ex_defs =
  exSyncer_def exWorld_def exDB_def exSource_def mkRepo_def userSvc_def siteSvc_def
  cloudSvc_def github_def

lemmas ref_defs =
  refStore_def refGetByID_def refExternalServiceList_def refUpsert_def refGetByName_def
  refRepoList_def refRepoDelete_def refUpdate_def refCreate_def refCount_def
  refDeleteNotIn_def refDeleteRepo_def

lemmas sync_defs =
  sync_def sync_tx_def sync_case0_def sync_case1_def sync_case2_def sync_create_def
  sync_deferred_def Done_def send_def emit_def Update_def Equal_def IsSiteOwned_def
  userReposMaxPerUser_def userReposMaxPerSite_def uint64_def Len_def emptyDiff_def

lemmas pass_defs =
  SyncExternalService_def allowedFor_def loop_init_def prune_def delete_def complete_def
  notifyDeleted_def zeroRepo_def calcSyncInterval_def Sub_def Add_def wrap64_def IsZero_def
  maxDuration_def minDuration_def Hour_def Minute_def Second_def Nanosecond_def fatal_def Repos_def

lemmas lazy_defs =
  syncRepo_def syncRepo_fetch_def syncRepo_deferred_def SyncRepo_def TrimPrefix_def
  notifyDeleted_def zeroRepo_def

subsection \<open>The per-repo apply\<close>

lemma Update_eq:
  "Update r n =
     (Name r \<noteq> Name n \<or> Private r \<noteq> Private n, r\<lparr>Name := Name n, Private := Private n\<rparr>)"
  by (cases r) (auto simp: Update_def)

lemma sync_deferred_Some: "sync_deferred s c tx d (Some e) w = (Some e, w)"
  by (simp add: sync_deferred_def Done_def)

lemma sync_deferred_None:
  "sync_deferred s c tx d None w =
     (case Commit (Store s) tx of
        Some e \<Rightarrow> (Some e, w)
      | None \<Rightarrow>
          (None, if Synced s \<and> Len d > 0 then send c d (emit Committed (w\<lparr>db := tx\<rparr>))
                 else emit Committed (w\<lparr>db := tx\<rparr>)))"
  by (simp add: sync_deferred_def Done_def Let_def split: option.splits)

lemma sync_deferred_eq:
  "sync_deferred s c tx d err w =
     (case err of
        Some e \<Rightarrow> (Some e, w)
      | None \<Rightarrow>
          (case Commit (Store s) tx of
             Some e \<Rightarrow> (Some e, w)
           | None \<Rightarrow>
               (None, if Synced s \<and> Len d > 0 then send c d (emit Committed (w\<lparr>db := tx\<rparr>))
                      else emit Committed (w\<lparr>db := tx\<rparr>))))"
  by (cases err) (simp_all add: sync_deferred_None sync_deferred_Some)

lemma sync_create_shape:
  "sync_create s svc sourced tx = (Returned (d, err), tx') \<Longrightarrow>
     (err \<noteq> None \<and> d = emptyDiff) \<or> (err = None \<and> one_repo d)"
  by (auto simp: sync_create_def one_repo_def split: sum.splits prod.splits)

lemma sync_case0_shape:
  "sync_case0 s svc sourced tx = (Returned (d, err), tx') \<Longrightarrow>
     (err \<noteq> None \<and> d = emptyDiff) \<or> (err = None \<and> one_repo d)"
  by (auto simp: sync_case0_def Let_def dest: sync_create_shape split: sum.splits if_splits)

lemma sync_case1_shape:
  "sync_case1 s svc sourced r tx = (Returned (d, err), tx') \<Longrightarrow>
     (err \<noteq> None \<and> d = emptyDiff) \<or> (err = None \<and> one_repo d)"
  by (auto simp: sync_case1_def one_repo_def split: sum.splits prod.splits if_splits)

lemma sync_case2_shape:
  "sync_case2 s svc sourced stored tx = (Returned (d, err), tx') \<Longrightarrow>
     (err \<noteq> None \<and> d = emptyDiff) \<or> (err = None \<and> one_repo d)"
  by (auto simp: sync_case2_def dest: sync_case1_shape
      split: sum.splits prod.splits option.splits)

lemma sync_tx_shape:
  "sync_tx s svc sourced tx = (Returned (d, err), tx') \<Longrightarrow>
     (err \<noteq> None \<and> d = emptyDiff) \<or> (err = None \<and> one_repo d)"
  by (auto simp: sync_tx_def dest: sync_case0_shape sync_case1_shape sync_case2_shape
      split: sum.splits if_splits)

lemma one_repo_Len: "one_repo d \<Longrightarrow> Len d = 1"
  by (auto simp: one_repo_def Len_def emptyDiff_def)

text \<open>A successful apply: one repo in the Diff, a committed transaction, the Diff sent.\<close>

lemma sync_Returned_None:
  assumes "sync s c svc sourced w = (Returned (d, None), w')"
  shows "one_repo d \<and>
         (\<exists>tx0 tx. Transact (Store s) (db w) = Inr tx0 \<and>
            sync_tx s svc sourced tx0 = (Returned (d, None), tx) \<and>
            Commit (Store s) tx = None \<and>
            w' = (if Synced s then send c d (emit Committed (w\<lparr>db := tx\<rparr>))
                  else emit Committed (w\<lparr>db := tx\<rparr>)))"
  using assms
  apply (simp add: sync_def split: sum.splits prod.splits outcome.splits)
  subgoal for tx0 tx d' err
    apply (cases err)
     apply (frule sync_tx_shape)
     apply (auto simp: sync_deferred_None sync_deferred_Some one_repo_Len
        split: option.splits if_splits)
    done
  done

text \<open>A failed apply leaves the database and the trace as they were.\<close>

lemma sync_Returned_Some:
  assumes "sync s c svc sourced w = (Returned (d, Some e), w')"
  shows "w' = w"
  using assms
  by (auto simp: sync_def sync_deferred_eq split: sum.splits prod.splits outcome.splits
      option.splits if_splits)

lemma sync_Panicked:
  assumes "sync s c svc sourced w = (Panicked msg, w')"
  shows "trace w' = trace w \<or> trace w' = trace w @ [Committed]"
  using assms
  by (auto simp: sync_def sync_deferred_None emptyDiff_def Len_def emit_def
      split: sum.splits prod.splits outcome.splits option.splits)







text \<open>
  C9. When the lookup by name or external repo spec returns more than two rows, the
  per-repo apply panics: it neither picks a row nor returns an error.
\<close>

theorem sync_panics_on_more_than_two:
  assumes "Transact (Store s) (db w) = Inr tx0"
    and "RepoList (Store s) tx0 (Name sourced) (ExternalRepo sourced) = Inr stored"
    and "length stored > 2"
  shows "fst (sync s ctxDone svc sourced w) = Panicked ''unreachable''"
proof -
  from assms(3) have "length stored \<noteq> 2" "length stored \<noteq> 1" "length stored \<noteq> 0"
    by auto
  with assms(2) have "sync_tx s svc sourced tx0 = (Panicked ''unreachable'', tx0)"
    by (simp add: sync_tx_def)
  with assms(1) show ?thesis
    by (simp add: sync_def split: prod.splits)
qed

lemma ex_three_rows:
  "RepoList (Store (exSyncer (exSource [])))
     (exDB [(mkRepo 1 ''github.com/a/b'' ''1'', 7), (mkRepo 2 ''github.com/a/b'' ''2'', 7),
            (mkRepo 3 ''github.com/a/b'' ''3'', 7)])
     (Name (mkRepo 0 ''github.com/a/b'' ''1'')) (ExternalRepo (mkRepo 0 ''github.com/a/b'' ''1'')) =
   Inr [mkRepo 1 ''github.com/a/b'' ''1'', mkRepo 2 ''github.com/a/b'' ''2'',
        mkRepo 3 ''github.com/a/b'' ''3'']"
  by (simp add: ex_defs ref_defs Equal_def)

text \<open>Witness for C9: three stored rows with the name of the sourced repo.\<close>

theorem sync_panics_on_more_than_two_witness:
  "fst (sync (exSyncer (exSource [])) False userSvc (mkRepo 0 ''github.com/a/b'' ''1'')
          (exWorld [(mkRepo 1 ''github.com/a/b'' ''1'', 7), (mkRepo 2 ''github.com/a/b'' ''2'', 7),
                    (mkRepo 3 ''github.com/a/b'' ''3'', 7)])) = Panicked ''unreachable''"
proof -
  have t: "Transact (Store (exSyncer (exSource [])))
             (db (exWorld [(mkRepo 1 ''github.com/a/b'' ''1'', 7),
                           (mkRepo 2 ''github.com/a/b'' ''2'', 7),
                           (mkRepo 3 ''github.com/a/b'' ''3'', 7)])) =
           Inr (exDB [(mkRepo 1 ''github.com/a/b'' ''1'', 7), (mkRepo 2 ''github.com/a/b'' ''2'', 7),
                      (mkRepo 3 ''github.com/a/b'' ''3'', 7)])"
    by (simp add: exSyncer_def refStore_def exWorld_def)
  show ?thesis
    by (rule sync_panics_on_more_than_two [OF t ex_three_rows]) simp
qed

text \<open>
  C3. A naming conflict: the lookup returns two rows, \<open>C\<close> with the external repo spec
  of the sourced repo and another name, and \<open>D\<close> which matches by name only. When the
  store deletes and updates as asked and commits, the apply deletes row \<open>D\<close>, updates
  row \<open>C\<close> with the observed fields (the new name among them), and returns the Diff
  whose only repo is the updated row, as Modified; that Diff is what is sent. Row \<open>D\<close>
  is not in the Diff (the rows have different IDs and the update keeps the ID).
\<close>

theorem sync_naming_conflict:
  assumes "Transact (Store s) (db w) = Inr txa"
    and "RepoList (Store s) txa (Name sourced) (ExternalRepo sourced) = Inr stored"
    and "stored = [C, D] \<or> stored = [D, C]"
    and "Equal (ExternalRepo C) (ExternalRepo sourced)"
    and "Name C \<noteq> Name sourced"
    and "\<not> Equal (ExternalRepo D) (ExternalRepo sourced)"
    and "RepoDelete (Store s) txa (ID D) = Inr txb"
    and "UpdateExternalServiceRepo (Store s) txb svc
           (C\<lparr>Name := Name sourced, Private := Private sourced\<rparr>) = Inr (txc, C')"
    and "Commit (Store s) txc = None"
  shows "sync s ctxDone svc sourced w =
           (Returned (emptyDiff\<lparr>Modified := [C']\<rparr>, None),
            w\<lparr>db := txc,
              trace := trace w @ Committed #
                (if Synced s \<and> \<not> ctxDone then [Sent (emptyDiff\<lparr>Modified := [C']\<rparr>)] else [])\<rparr>) \<and>
         Repos (emptyDiff\<lparr>Modified := [C']\<rparr>) = [C'] \<and>
         (ID C' = ID C \<and> ID C \<noteq> ID D \<longrightarrow> D \<notin> set (Repos (emptyDiff\<lparr>Modified := [C']\<rparr>)))"
proof -
  have p: "pick sourced stored (None, None) = (Some C, Some D)"
    using assms(3,4,6) by auto
  have tx: "sync_tx s svc sourced txa = (Returned (emptyDiff\<lparr>Modified := [C']\<rparr>, None), txc)"
    using assms(2,3,5,7,8) p
    by (auto simp: sync_tx_def sync_case2_def sync_case1_def Update_eq)
  have "sync s ctxDone svc sourced w =
           (Returned (emptyDiff\<lparr>Modified := [C']\<rparr>, None),
            w\<lparr>db := txc,
              trace := trace w @ Committed #
                (if Synced s \<and> \<not> ctxDone then [Sent (emptyDiff\<lparr>Modified := [C']\<rparr>)] else [])\<rparr>)"
    using assms(1,9) tx
    by (simp add: sync_def sync_deferred_None Len_def emptyDiff_def send_def emit_def)
  moreover have "Repos (emptyDiff\<lparr>Modified := [C']\<rparr>) = [C']"
    by (simp add: Repos_def emptyDiff_def)
  ultimately show ?thesis by auto
qed

text \<open>
  Witness for C3: the source reports repo 1 under the name of repo 2. Afterwards the
  reference store holds the renamed repo 1 only.
\<close>

theorem sync_naming_conflict_witness:
  "sync (exSyncer (exSource [])) False userSvc (mkRepo 0 ''github.com/a/new'' ''1'')
     (exWorld [(mkRepo 1 ''github.com/a/old'' ''1'', 7), (mkRepo 2 ''github.com/a/new'' ''2'', 7)]) =
   (Returned (emptyDiff\<lparr>Modified := [mkRepo 1 ''github.com/a/new'' ''1'']\<rparr>, None),
    \<lparr>db = exDB [(mkRepo 1 ''github.com/a/new'' ''1'', 7)],
     trace = [Committed, Sent (emptyDiff\<lparr>Modified := [mkRepo 1 ''github.com/a/new'' ''1'']\<rparr>)]\<rparr>)"
proof -
  have "sync (exSyncer (exSource [])) False userSvc (mkRepo 0 ''github.com/a/new'' ''1'')
     (exWorld [(mkRepo 1 ''github.com/a/old'' ''1'', 7), (mkRepo 2 ''github.com/a/new'' ''2'', 7)]) =
     (Returned (emptyDiff\<lparr>Modified := [mkRepo 1 ''github.com/a/new'' ''1'']\<rparr>, None),
      (exWorld [(mkRepo 1 ''github.com/a/old'' ''1'', 7), (mkRepo 2 ''github.com/a/new'' ''2'', 7)])
       \<lparr>db := exDB [(mkRepo 1 ''github.com/a/new'' ''1'', 7)],
         trace := trace (exWorld [(mkRepo 1 ''github.com/a/old'' ''1'', 7), (mkRepo 2 ''github.com/a/new'' ''2'', 7)]) @ Committed #
           (if Synced (exSyncer (exSource [])) \<and> \<not> False
            then [Sent (emptyDiff\<lparr>Modified := [mkRepo 1 ''github.com/a/new'' ''1'']\<rparr>)] else [])\<rparr>) \<and>
     Repos (emptyDiff\<lparr>Modified := [mkRepo 1 ''github.com/a/new'' ''1'']\<rparr>) =
       [mkRepo 1 ''github.com/a/new'' ''1''] \<and>
     (ID (mkRepo 1 ''github.com/a/new'' ''1'') = ID (mkRepo 1 ''github.com/a/old'' ''1'') \<and>
      ID (mkRepo 1 ''github.com/a/old'' ''1'') \<noteq> ID (mkRepo 2 ''github.com/a/new'' ''2'') \<longrightarrow>
        mkRepo 2 ''github.com/a/new'' ''2'' \<notin>
          set (Repos (emptyDiff\<lparr>Modified := [mkRepo 1 ''github.com/a/new'' ''1'']\<rparr>)))"
    by (rule sync_naming_conflict
        [where C = "mkRepo 1 ''github.com/a/old'' ''1''" and D = "mkRepo 2 ''github.com/a/new'' ''2''"
           and txa = "exDB [(mkRepo 1 ''github.com/a/old'' ''1'', 7), (mkRepo 2 ''github.com/a/new'' ''2'', 7)]"
           and txb = "exDB [(mkRepo 1 ''github.com/a/old'' ''1'', 7)]"
           and stored = "[mkRepo 1 ''github.com/a/old'' ''1'', mkRepo 2 ''github.com/a/new'' ''2'']"])
      (simp_all add: ex_defs ref_defs Equal_def)
  then show ?thesis
    by (simp add: exSyncer_def exWorld_def)
qed

subsection \<open>The streaming pass\<close>

lemma fatal_Wrap [simp]: "fatal (Wrap e m) = fatal e"
  by (simp add: fatal_def)

lemma fatal_Multi: "fatal (Multi es) \<longleftrightarrow> (\<exists>e\<in>set es. fatal e)"
  by (auto simp: fatal_def list_ex_iff)

lemma Append_not_None [simp]: "Append eo e \<noteq> None"
  by (cases "(eo, e)" rule: Append.cases) simp_all

lemma fatal_opt_Append [simp]: "fatal_opt (Append eo e) \<longleftrightarrow> fatal_opt eo \<or> fatal e"
  by (cases "(eo, e)" rule: Append.cases) (auto simp: fatal_opt_def fatal_Multi)

lemma fatal_opt_None [simp]: "\<not> fatal_opt None"
  by (simp add: fatal_opt_def)

lemma sync_trace:
  assumes "sync s c svc r w = (out, w')"
  shows "\<exists>new. trace w' = trace w @ new \<and> quiet new"
proof (cases out)
  case (Returned res)
  obtain d err where res: "res = (d, err)" by (cases res)
  show ?thesis
  proof (cases err)
    case None
    with assms Returned res have "sync s c svc r w = (Returned (d, None), w')" by simp
    from sync_Returned_None [OF this]
    have "trace w' = trace w @ [Committed] \<or> trace w' = trace w @ [Committed, Sent d]"
      by (auto simp: send_def emit_def split: if_splits)
    then show ?thesis by (auto simp: quiet_def)
  next
    case (Some e)
    with assms Returned res have "sync s c svc r w = (Returned (d, Some e), w')" by simp
    from sync_Returned_Some [OF this] show ?thesis by (simp add: quiet_def)
  qed
next
  case (Panicked msg)
  with assms have "sync s c svc r w = (Panicked msg, w')" by simp
  from sync_Panicked [OF this] show ?thesis by (auto simp: quiet_def)
qed

lemma loop_rel_refl: "loop_rel ls ls []"
  by (simp add: loop_rel_def)

lemma loop_rel_trans:
  "loop_rel a b n1 \<Longrightarrow> loop_rel b c n2 \<Longrightarrow> loop_rel a c (n1 @ n2)"
  by (auto simp: loop_rel_def)

lemma consume_trace:
  "\<exists>new. loop_rel ls (consume s c svc allowed xs ls) new"
proof (induction xs arbitrary: ls)
  case Nil
  show ?case using loop_rel_refl by auto
next
  case (Cons x xs)
  show ?case
  proof (cases x)
    case (SourceErr err)
    let ?ls1 = "ls\<lparr>world := emit (LogError err) (world ls),
                   errs := Append (errs ls)
                     (Wrap err (''fetching from code host '' @ DisplayName svc))\<rparr>"
    have step: "loop_rel ls ?ls1 [LogError err]"
      by (simp add: loop_rel_def emit_def)
    show ?thesis
    proof (cases "fatal err")
      case True
      then have eq: "consume s c svc allowed (x # xs) ls = ?ls1\<lparr>seen := {}, status := Broke\<rparr>"
        using SourceErr by (simp add: Let_def)
      have "loop_rel ls (?ls1\<lparr>seen := {}, status := Broke\<rparr>) [LogError err]"
        using step by (simp add: loop_rel_def)
      then show ?thesis unfolding eq by (rule exI)
    next
      case False
      then have eq: "consume s c svc allowed (x # xs) ls = consume s c svc allowed xs ?ls1"
        using SourceErr by (simp add: Let_def)
      from Cons.IH [of ?ls1] obtain n2 where n2: "loop_rel ?ls1 (consume s c svc allowed xs ?ls1) n2"
        by (rule exE)
      from loop_rel_trans [OF step n2] show ?thesis unfolding eq by (rule exI)
    qed
  next
    case (SourcedRepo sourced)
    show ?thesis
    proof (cases "allowed sourced")
      case False
      then have "consume s c svc allowed (x # xs) ls = consume s c svc allowed xs ls"
        using SourcedRepo by simp
      with Cons.IH [of ls] show ?thesis by simp
    next
      case True
      obtain out w' where sy: "sync s c svc sourced (world ls) = (out, w')"
        by (cases "sync s c svc sourced (world ls)")
      from sync_trace [OF sy] obtain n1 where n1: "trace w' = trace (world ls) @ n1" "quiet n1"
        by (elim exE conjE)
      show ?thesis
      proof (cases out)
        case (Panicked msg)
        then have eq: "consume s c svc allowed (x # xs) ls = ls\<lparr>world := w', status := LoopPanicked msg\<rparr>"
          using SourcedRepo True sy by simp
        have "loop_rel ls (ls\<lparr>world := w', status := LoopPanicked msg\<rparr>) n1"
          using n1 by (simp add: loop_rel_def quiet_def)
        then show ?thesis unfolding eq by (rule exI)
      next
        case (Returned res)
        obtain d err where res: "res = (d, err)" by (cases res)
        show ?thesis
        proof (cases err)
          case None
          let ?ls1 = "ls\<lparr>world := w', seen := seen ls \<union> ID ` set (Repos d),
                 modified := (modified ls \<or> length (Modified d) + length (Added d) > 0)\<rparr>"
          have eq: "consume s c svc allowed (x # xs) ls = consume s c svc allowed xs ?ls1"
            using SourcedRepo True sy Returned res None by simp
          have step: "loop_rel ls ?ls1 n1"
            using n1 by (simp add: loop_rel_def quiet_def)
          from Cons.IH [of ?ls1] obtain n2 where n2: "loop_rel ?ls1 (consume s c svc allowed xs ?ls1) n2"
            by (rule exE)
          from loop_rel_trans [OF step n2] show ?thesis unfolding eq by (rule exI)
        next
          case (Some e)
          have w': "w' = world ls"
            using sync_Returned_Some [of s c svc sourced "world ls" d e w'] sy Returned res Some
            by simp
          let ?ls1 = "ls\<lparr>world := emit (LogError e) w', errs := Append (errs ls) e\<rparr>"
          have step: "loop_rel ls ?ls1 [LogError e]"
            using w' by (simp add: loop_rel_def emit_def)
          show ?thesis
          proof (cases "HasType_RepoLimitError e")
            case True
            then have eq: "consume s c svc allowed (x # xs) ls = ?ls1\<lparr>status := Broke\<rparr>"
              using SourcedRepo \<open>allowed sourced\<close> sy Returned res Some by (simp add: Let_def)
            have "loop_rel ls (?ls1\<lparr>status := Broke\<rparr>) [LogError e]"
              using step by (simp add: loop_rel_def)
            then show ?thesis unfolding eq by (rule exI)
          next
            case False
            then have eq: "consume s c svc allowed (x # xs) ls = consume s c svc allowed xs ?ls1"
              using SourcedRepo \<open>allowed sourced\<close> sy Returned res Some by (simp add: Let_def)
            from Cons.IH [of ?ls1] obtain n2 where n2: "loop_rel ?ls1 (consume s c svc allowed xs ?ls1) n2"
              by (rule exE)
            from loop_rel_trans [OF step n2] show ?thesis unfolding eq by (rule exI)
          qed
        qed
      qed
    qed
  qed
qed

lemma prune_trace:
  assumes "prune s c svc ls = (del, er, w1)"
  shows "\<exists>new. trace w1 = trace (world ls) @ new \<and> (\<forall>e. LogError e \<notin> set new) \<and>
           ((\<exists>a b. Pruned a b \<in> set new) \<longleftrightarrow>
              errs ls = None \<or> (\<not> IsSiteOwned svc \<and> fatal_opt (errs ls))) \<and>
           (\<forall>a b. Pruned a b \<in> set new \<longrightarrow> a = seen ls)"
proof (cases "case errs ls of None \<Rightarrow> True | Some e \<Rightarrow> \<not> IsSiteOwned svc \<and> fatal e")
  case False
  then have "w1 = world ls" using assms by (simp add: prune_def)
  moreover from False have "\<not> (errs ls = None \<or> (\<not> IsSiteOwned svc \<and> fatal_opt (errs ls)))"
    by (auto simp: fatal_opt_def split: option.splits)
  ultimately show ?thesis by (intro exI [where x = "[]"]) simp
next
  case True
  obtain ids de db' where d: "DeleteExternalServiceReposNotIn (Store s) (db (world ls)) svc (seen ls) = (ids, de, db')"
    by (cases "DeleteExternalServiceReposNotIn (Store s) (db (world ls)) svc (seen ls)")
  from True have cond: "errs ls = None \<or> (\<not> IsSiteOwned svc \<and> fatal_opt (errs ls))"
    by (auto simp: fatal_opt_def split: option.splits)
  have "w1 = notifyDeleted s c ids (emit (Pruned (seen ls) ids) ((world ls)\<lparr>db := db'\<rparr>))"
    using assms True d by (simp add: prune_def delete_def)
  then have "trace w1 = trace (world ls) @ [Pruned (seen ls) ids] \<or>
     (\<exists>df. trace w1 = trace (world ls) @ [Pruned (seen ls) ids, Sent df])"
    by (auto simp: notifyDeleted_def send_def emit_def Let_def)
  then show ?thesis using cond by auto
qed

lemma complete_trace:
  "complete s svc m md del er w = (er', w') \<Longrightarrow> trace w' = trace w"
  by (auto simp: complete_def Let_def split: sum.splits)

lemma consume_append:
  "status ls = Running \<Longrightarrow>
   consume s c svc allowed (xs @ ys) ls =
     (if status (consume s c svc allowed xs ls) = Running
      then consume s c svc allowed ys (consume s c svc allowed xs ls)
      else consume s c svc allowed xs ls)"
proof (induction xs arbitrary: ls)
  case Nil
  then show ?case by simp
next
  case (Cons x xs)
  show ?case
  proof (cases x)
    case (SourceErr err)
    with Cons show ?thesis by (simp add: Let_def)
  next
    case (SourcedRepo sourced)
    with Cons show ?thesis
      by (simp add: Let_def split: prod.splits outcome.splits option.splits)
  qed
qed

lemma consume_fatal:
  "fatal e \<Longrightarrow>
   consume s c svc allowed (SourceErr e # post) ls =
     ls\<lparr>world := emit (LogError e) (world ls),
        errs := Append (errs ls) (Wrap e (''fetching from code host '' @ DisplayName svc)),
        seen := {}, status := Broke\<rparr>"
  by (simp add: Let_def)

lemma consume_errors:
  "\<forall>x\<in>set xs. \<exists>e. x = SourceErr e \<Longrightarrow>
   db (world (consume s c svc allowed xs ls)) = db (world ls) \<and>
   (xs \<noteq> [] \<longrightarrow> errs (consume s c svc allowed xs ls) \<noteq> None) \<and>
   (errs ls \<noteq> None \<longrightarrow> errs (consume s c svc allowed xs ls) \<noteq> None) \<and>
   (status ls = Running \<longrightarrow> status (consume s c svc allowed xs ls) \<noteq> Running \<longrightarrow>
      status (consume s c svc allowed xs ls) = Broke)"
proof (induction xs arbitrary: ls)
  case Nil
  then show ?case by simp
next
  case (Cons x xs)
  then obtain e where x: "x = SourceErr e" by auto
  from Cons.prems have rest: "\<forall>x\<in>set xs. \<exists>e. x = SourceErr e" by simp
  show ?case
  proof (cases "fatal e")
    case True
    then show ?thesis using x by (simp add: Let_def emit_def)
  next
    case False
    let ?ls1 = "ls\<lparr>world := emit (LogError e) (world ls),
                   errs := Append (errs ls) (Wrap e (''fetching from code host '' @ DisplayName svc))\<rparr>"
    have eq: "consume s c svc allowed (x # xs) ls = consume s c svc allowed xs ?ls1"
      using False x by (simp add: Let_def)
    from Cons.IH [OF rest, of ?ls1] show ?thesis
      unfolding eq by (simp add: emit_def)
  qed
qed

lemma SyncExternalService_reached:
  assumes "GetByID (Store s) (db w) i = Inr svc" and "\<not> CloudDefault svc"
    and "allowedFor s svc (db w) = Inr allowed" and "Sourcer s svc = Inr src"
  shows "SyncExternalService s c i m w =
           (let ls = consume s c svc allowed (ListRepos src) (loop_init svc w)
            in case status ls of
                 LoopPanicked msg \<Rightarrow> (Panicked msg, world ls)
               | _ \<Rightarrow>
                   (case prune s c svc ls of
                      (deleted, errs1, w1) \<Rightarrow>
                        (case complete s svc m (modified ls) deleted errs1 w1 of
                           (errs2, w2) \<Rightarrow> (Returned errs2, w2))))"
  using assms by (simp add: SyncExternalService_def)

lemma sync_limit:
  assumes "\<not> IsSiteOwned svc"
    and "Transact (Store s) (db w) = Inr tx"
    and "RepoList (Store s) tx (Name sourced) (ExternalRepo sourced) = Inr []"
    and "CountNamespacedRepos (Store s) tx 0 0 = Inr siteAdded"
    and "CountNamespacedRepos (Store s) tx (NamespaceUserID svc) (NamespaceOrgID svc) = Inr userAdded"
    and "siteAdded \<ge> userReposMaxPerSite s \<or> userAdded \<ge> userReposMaxPerUser s"
  shows "sync s c svc sourced w =
           (Returned (emptyDiff,
              Some (RepoLimitError siteAdded (userReposMaxPerSite s) userAdded
                      (userReposMaxPerUser s) (NamespaceUserID svc) (NamespaceOrgID svc))), w)"
proof -
  have "sync_tx s svc sourced tx =
          (Returned (emptyDiff,
              Some (RepoLimitError siteAdded (userReposMaxPerSite s) userAdded
                      (userReposMaxPerUser s) (NamespaceUserID svc) (NamespaceOrgID svc))), tx)"
    using assms(1,3-6) by (auto simp: sync_tx_def sync_case0_def Let_def)
  with assms(2) show ?thesis
    by (simp add: sync_def sync_deferred_Some)
qed

lemma ex_pass_fatal:
  "SyncExternalService (exSyncer (exSource exResults)) False 7 Minute (exWorld exRows) =
     (Returned (Some (Multi [Wrap ErrUnauthorized ''fetching from code host GitHub''])),
      \<lparr>db = \<lparr>rows = [(mkRepo 5 ''github.com/s/t'' ''5'', 8)],
              services = [userSvc\<lparr>NextSyncAt := 108 * Hour, LastSyncAt := 100 * Hour\<rparr>,
                          siteSvc, cloudSvc]\<rparr>,
       trace = [Listed 7, Committed,
                Sent (emptyDiff\<lparr>Unmodified := [mkRepo 1 ''github.com/a/b'' ''1'']\<rparr>),
                LogError ErrUnauthorized, Pruned {} [1, 2],
                Sent (emptyDiff\<lparr>Deleted := [zeroRepo\<lparr>ID := 1\<rparr>, zeroRepo\<lparr>ID := 2\<rparr>]\<rparr>)]\<rparr>)"
  by (simp add: pass_defs sync_defs ex_defs ref_defs exResults_def exRows_def Let_def)

lemma ex_pass_limit:
  "SyncExternalService (exSyncer (exSource exLimitResults)) False 7 Minute (exWorld exRows) =
     (Returned (Some (Multi [RepoLimitError 2 200000 2 2 42 0])),
      \<lparr>db = \<lparr>rows = exRows,
              services = [userSvc\<lparr>NextSyncAt := 108 * Hour, LastSyncAt := 100 * Hour\<rparr>,
                          siteSvc, cloudSvc]\<rparr>,
       trace = [Listed 7, Committed,
                Sent (emptyDiff\<lparr>Unmodified := [mkRepo 1 ''github.com/a/b'' ''1'']\<rparr>),
                LogError (RepoLimitError 2 200000 2 2 42 0)]\<rparr>)"
  by (simp add: pass_defs sync_defs ex_defs ref_defs exLimitResults_def exRows_def Let_def)

text \<open>
  On the reference store a pruning with the empty seen set leaves no repo of the
  service.
\<close>

lemma refStore_prune_all:
  assumes "DeleteExternalServiceReposNotIn refStore d svc {} = (ids, err, d')"
  shows "\<forall>row\<in>set (rows d'). snd row \<noteq> ExternalService.ID svc"
  using assms by (auto simp: refStore_def refDeleteNotIn_def)

text \<open>
  C1 (as the code has it). In a pass that reaches the loop and returns, the repos not
  seen are pruned (\<^verbatim>\<open>DeleteExternalServiceReposNotIn\<close> is called) if and only if no
  error was logged during the pass, or the service is not site-owned and a fatal error
  was logged. The pruning is given the seen set of the loop. A fatal error of the source
  clears the seen set and ends the loop, so that for a service that is not site-owned
  the pruning is called with the empty seen set: every stored repo of the service is
  unseen. For a site-owned service with any error the pruning is not called: no unseen
  repo is deleted. A per-repo apply of such a pass may still delete the row that loses
  a naming conflict; when every result of the source is an error no apply runs, and the
  database is only changed by the upsert of the service.
\<close>

theorem prune_iff_clean_or_fatal:
  assumes "GetByID (Store s) (db w) externalServiceID = Inr svc" and "\<not> CloudDefault svc"
    and "allowedFor s svc (db w) = Inr allowed" and "Sourcer s svc = Inr src"
    and "SyncExternalService s ctxDone externalServiceID minSyncInterval w = (Returned r, w')"
  shows "\<exists>new. trace w' = trace w @ new \<and>
     ((\<exists>sn ids. Pruned sn ids \<in> set new) \<longleftrightarrow>
        (\<forall>e. LogError e \<notin> set new) \<or>
        (\<not> IsSiteOwned svc \<and> (\<exists>e. LogError e \<in> set new \<and> fatal e))) \<and>
     (\<forall>sn ids. Pruned sn ids \<in> set new \<longrightarrow>
        sn = seen (consume s ctxDone svc allowed (ListRepos src) (loop_init svc w))) \<and>
     (\<forall>pre e post.
        ListRepos src = pre @ SourceErr e # post \<and> fatal e \<and>
        status (consume s ctxDone svc allowed pre (loop_init svc w)) = Running \<longrightarrow>
          seen (consume s ctxDone svc allowed (ListRepos src) (loop_init svc w)) = {} \<and>
          (\<not> IsSiteOwned svc \<longrightarrow> (\<exists>ids. Pruned {} ids \<in> set new))) \<and>
     (IsSiteOwned svc \<and> (\<exists>e. LogError e \<in> set new) \<longrightarrow>
        (\<forall>sn ids. Pruned sn ids \<notin> set new)) \<and>
     (IsSiteOwned svc \<and> ListRepos src \<noteq> [] \<and> (\<forall>x\<in>set (ListRepos src). \<exists>e. x = SourceErr e) \<longrightarrow>
        db w' = db w \<or> (\<exists>svc'. Upsert (Store s) (db w) svc' = Inr (db w')))"
proof -
  define ls where "ls = consume s ctxDone svc allowed (ListRepos src) (loop_init svc w)"
  obtain del er w1 where pr: "prune s ctxDone svc ls = (del, er, w1)"
    by (cases "prune s ctxDone svc ls")
  obtain er2 w2 where co: "complete s svc minSyncInterval (modified ls) del er w1 = (er2, w2)"
    by (cases "complete s svc minSyncInterval (modified ls) del er w1")
  have np: "\<forall>msg. status ls \<noteq> LoopPanicked msg" and w2: "w' = w2"
    using assms(5) pr co
    unfolding SyncExternalService_reached [OF assms(1-4)] Let_def ls_def [symmetric]
    by (auto split: loop_status.splits)
  from consume_trace [of "loop_init svc w" s ctxDone svc allowed "ListRepos src"]
  obtain n1 where n1: "loop_rel (loop_init svc w) ls n1"
    unfolding ls_def by (rule exE)
  from prune_trace [OF pr] obtain n2 where
    n2: "trace w1 = trace (world ls) @ n2" "\<forall>e. LogError e \<notin> set n2"
      "(\<exists>a b. Pruned a b \<in> set n2) \<longleftrightarrow> errs ls = None \<or> (\<not> IsSiteOwned svc \<and> fatal_opt (errs ls))"
      "\<forall>a b. Pruned a b \<in> set n2 \<longrightarrow> a = seen ls"
    by (elim exE conjE)
  have t1: "trace (world ls) = trace w @ Listed (ExternalService.ID svc) # n1"
    and q1: "\<forall>a b. Pruned a b \<notin> set n1"
    and e1: "errs ls = None \<longleftrightarrow> (\<forall>e. LogError e \<notin> set n1)"
    and f1: "fatal_opt (errs ls) \<longleftrightarrow> (\<exists>e. LogError e \<in> set n1 \<and> fatal e)"
    using n1 by (simp_all add: loop_rel_def loop_init_def emit_def)
  let ?new = "Listed (ExternalService.ID svc) # n1 @ n2"
  have tr: "trace w' = trace w @ ?new"
    using complete_trace [OF co] w2 n2(1) t1 by simp
  have pruned: "\<And>a b. Pruned a b \<in> set ?new \<longleftrightarrow> Pruned a b \<in> set n2"
    using q1 by auto
  have logged: "\<And>e. LogError e \<in> set ?new \<longleftrightarrow> LogError e \<in> set n1"
    using n2(2) by auto
  have A: "(\<exists>sn ids. Pruned sn ids \<in> set ?new) \<longleftrightarrow>
        (\<forall>e. LogError e \<notin> set ?new) \<or>
        (\<not> IsSiteOwned svc \<and> (\<exists>e. LogError e \<in> set ?new \<and> fatal e))"
    unfolding pruned logged using n2(3) e1 f1 by simp
  have B: "\<forall>sn ids. Pruned sn ids \<in> set ?new \<longrightarrow> sn = seen ls"
    unfolding pruned using n2(4) by simp
  have C: "\<forall>pre e post.
        ListRepos src = pre @ SourceErr e # post \<and> fatal e \<and>
        status (consume s ctxDone svc allowed pre (loop_init svc w)) = Running \<longrightarrow>
          seen ls = {} \<and> (\<not> IsSiteOwned svc \<longrightarrow> (\<exists>ids. Pruned {} ids \<in> set ?new))"
  proof (intro allI impI, elim conjE)
    fix pre e post
    assume l: "ListRepos src = pre @ SourceErr e # post" and f: "fatal e"
      and r: "status (consume s ctxDone svc allowed pre (loop_init svc w)) = Running"
    have "status (loop_init svc w) = Running" by (simp add: loop_init_def)
    from consume_append [OF this, of s ctxDone svc allowed pre "SourceErr e # post"]
    have lseq: "ls = consume s ctxDone svc allowed (SourceErr e # post)
                  (consume s ctxDone svc allowed pre (loop_init svc w))"
      using r l by (simp add: ls_def)
    have se: "seen ls = {}" and fe: "fatal_opt (errs ls)"
      unfolding lseq consume_fatal [OF f] using f by simp_all
    from fe n2(3) have "\<not> IsSiteOwned svc \<longrightarrow> (\<exists>a b. Pruned a b \<in> set n2)" by simp
    with n2(4) se have "\<not> IsSiteOwned svc \<longrightarrow> (\<exists>ids. Pruned {} ids \<in> set n2)" by metis
    with se show "seen ls = {} \<and> (\<not> IsSiteOwned svc \<longrightarrow> (\<exists>ids. Pruned {} ids \<in> set ?new))"
      unfolding pruned by simp
  qed
  have D: "IsSiteOwned svc \<and> (\<exists>e. LogError e \<in> set ?new) \<longrightarrow>
        (\<forall>sn ids. Pruned sn ids \<notin> set ?new)"
    using A by blast
  have E: "IsSiteOwned svc \<and> ListRepos src \<noteq> [] \<and> (\<forall>x\<in>set (ListRepos src). \<exists>e. x = SourceErr e) \<longrightarrow>
        db w' = db w \<or> (\<exists>svc'. Upsert (Store s) (db w) svc' = Inr (db w'))"
  proof (intro impI, elim conjE)
    assume so: "IsSiteOwned svc" and ne: "ListRepos src \<noteq> []"
      and al: "\<forall>x\<in>set (ListRepos src). \<exists>e. x = SourceErr e"
    from consume_errors [OF al, of s ctxDone svc allowed "loop_init svc w"] ne
    have dbl: "db (world ls) = db w" and en: "errs ls \<noteq> None"
      by (simp_all add: ls_def loop_init_def emit_def)
    from en so pr have "w1 = world ls"
      by (auto simp: prune_def split: option.splits)
    with dbl have "db w1 = db w" by simp
    with co w2 show "db w' = db w \<or> (\<exists>svc'. Upsert (Store s) (db w) svc' = Inr (db w'))"
      by (auto simp: complete_def Let_def split: sum.splits)
  qed
  show ?thesis
    using tr A B C D E unfolding ls_def by (intro exI [where x = ?new] conjI)
qed

text \<open>
  Witness for C1: a user's service whose source reports one known repo and then that
  it is unauthorized. Both stored repos of the service are pruned, the repo of the
  site's service stays.
\<close>

theorem prune_iff_clean_or_fatal_witness:
  "rows (db (snd (SyncExternalService (exSyncer (exSource exResults)) False 7 Minute
                    (exWorld exRows)))) = [(mkRepo 5 ''github.com/s/t'' ''5'', 8)] \<and>
   Pruned {} [1, 2] \<in> set (trace (snd (SyncExternalService (exSyncer (exSource exResults)) False 7
                                          Minute (exWorld exRows))))"
proof -
  have h1: "GetByID (Store (exSyncer (exSource exResults))) (db (exWorld exRows)) 7 = Inr userSvc"
    by (simp add: ex_defs ref_defs)
  have h2: "\<not> CloudDefault userSvc"
    by (simp add: userSvc_def)
  have h3: "allowedFor (exSyncer (exSource exResults)) userSvc (db (exWorld exRows)) =
              Inr (\<lambda>r. \<not> Private r)"
    by (simp add: allowedFor_def ex_defs ref_defs)
  have h4: "Sourcer (exSyncer (exSource exResults)) userSvc =
              Inr \<lparr>ListRepos = exResults, GetRepo = None\<rparr>"
    by (simp add: ex_defs)
  show ?thesis
    using prune_iff_clean_or_fatal [OF h1 h2 h3 h4 ex_pass_fatal] ex_pass_fatal
    by simp
qed

text \<open>
  Counterexample to C1 as stated: a pass of the site's service with a transient error
  from the source and then a repo that takes the name of another stored repo. The
  pruning is not called, yet the apply of the repo deletes the stored repo 2, which
  held the name: a site-owned service with an error has a repo deleted.
\<close>

theorem site_owned_conflict_delete_counterexample:
  "SyncExternalService (exSyncer (exSource exConflictResults)) False 8 Minute
     (exWorld exConflictRows) =
     (Returned (Some (Multi [Wrap (Errorf ''boom'') ''fetching from code host GitHub''])),
      \<lparr>db = \<lparr>rows = [(mkRepo 1 ''github.com/a/new'' ''1'', 8)],
              services = [siteSvc\<lparr>NextSyncAt := 108 * Hour, LastSyncAt := 100 * Hour\<rparr>,
                          userSvc, cloudSvc]\<rparr>,
       trace = [Listed 8, LogError (Errorf ''boom''), Committed,
                Sent (emptyDiff\<lparr>Modified := [mkRepo 1 ''github.com/a/new'' ''1'']\<rparr>)]\<rparr>) \<and>
   IsSiteOwned siteSvc \<and>
   GetByID (Store (exSyncer (exSource exConflictResults))) (db (exWorld exConflictRows)) 8 =
     Inr siteSvc \<and>
   rows (db (exWorld exConflictRows)) =
     [(mkRepo 1 ''github.com/a/old'' ''1'', 8), (mkRepo 2 ''github.com/a/new'' ''2'', 8)]"
  by (simp add: pass_defs sync_defs ex_defs ref_defs exConflictResults_def exConflictRows_def
      Let_def)

text \<open>
  C6. When the apply of a candidate fails with a \<^verbatim>\<open>RepoLimitError\<close> the loop ends:
  the result of the pass does not depend on the candidates after it. The pass then
  runs to its end: the block that prunes, the backoff, \<^verbatim>\<open>NextSyncAt\<close> and
  \<^verbatim>\<open>LastSyncAt\<close>, and the upsert of the external service. The apply fails so when
  the candidate is new for a service that is not site-owned and the site-wide or the
  namespace's count of repos has reached its limit; the database and the trace are
  then as before the apply: the repo was not inserted.
\<close>

theorem repo_limit_stops_pass:
  assumes "GetByID (Store s) (db w) externalServiceID = Inr svc" and "\<not> CloudDefault svc"
    and "allowedFor s svc (db w) = Inr allowed" and "Sourcer s svc = Inr src"
    and "ListRepos src = pre @ SourcedRepo sourced # post"
    and "consume s ctxDone svc allowed pre (loop_init svc w) = ls" and "status ls = Running"
    and "allowed sourced" and "\<not> IsSiteOwned svc"
    and "Transact (Store s) (db (world ls)) = Inr tx"
    and "RepoList (Store s) tx (Name sourced) (ExternalRepo sourced) = Inr []"
    and "CountNamespacedRepos (Store s) tx 0 0 = Inr siteAdded"
    and "CountNamespacedRepos (Store s) tx (NamespaceUserID svc) (NamespaceOrgID svc) = Inr userAdded"
    and "siteAdded \<ge> userReposMaxPerSite s \<or> userAdded \<ge> userReposMaxPerUser s"
    and "e = RepoLimitError siteAdded (userReposMaxPerSite s) userAdded (userReposMaxPerUser s)
               (NamespaceUserID svc) (NamespaceOrgID svc)"
  shows "sync s ctxDone svc sourced (world ls) = (Returned (emptyDiff, Some e), world ls) \<and>
         SyncExternalService s ctxDone externalServiceID minSyncInterval w =
           (case prune s ctxDone svc
                   (ls\<lparr>world := emit (LogError e) (world ls), errs := Append (errs ls) e,
                       status := Broke\<rparr>) of
              (deleted, errs1, w1) \<Rightarrow>
                (case Upsert (Store s) (db w1)
                        (svc\<lparr>NextSyncAt :=
                               Add (Now s)
                                 (calcSyncInterval (Now s) (LastSyncAt svc) minSyncInterval
                                    (modified ls \<or> deleted > 0) errs1),
                             LastSyncAt := Now s\<rparr>) of
                   Inl e' \<Rightarrow> (Returned (Append errs1 (Wrap e' ''upserting external service'')), w1)
                 | Inr db' \<Rightarrow> (Returned errs1, w1\<lparr>db := db'\<rparr>)))"
proof -
  have sy: "sync s ctxDone svc sourced (world ls) = (Returned (emptyDiff, Some e), world ls)"
    unfolding assms(15) by (rule sync_limit [OF assms(9-14)])
  have "status (loop_init svc w) = Running" by (simp add: loop_init_def)
  from consume_append [OF this, of s ctxDone svc allowed pre "SourcedRepo sourced # post"]
  have "consume s ctxDone svc allowed (ListRepos src) (loop_init svc w) =
          consume s ctxDone svc allowed (SourcedRepo sourced # post) ls"
    using assms(5,6,7) by simp
  also have "\<dots> = ls\<lparr>world := emit (LogError e) (world ls), errs := Append (errs ls) e,
                       status := Broke\<rparr>"
    using assms(8) sy by (simp add: assms(15) Let_def)
  finally have lp: "consume s ctxDone svc allowed (ListRepos src) (loop_init svc w) =
      ls\<lparr>world := emit (LogError e) (world ls), errs := Append (errs ls) e, status := Broke\<rparr>" .
  have "SyncExternalService s ctxDone externalServiceID minSyncInterval w =
           (case prune s ctxDone svc
                   (ls\<lparr>world := emit (LogError e) (world ls), errs := Append (errs ls) e,
                       status := Broke\<rparr>) of
              (deleted, errs1, w1) \<Rightarrow>
                (case Upsert (Store s) (db w1)
                        (svc\<lparr>NextSyncAt :=
                               Add (Now s)
                                 (calcSyncInterval (Now s) (LastSyncAt svc) minSyncInterval
                                    (modified ls \<or> deleted > 0) errs1),
                             LastSyncAt := Now s\<rparr>) of
                   Inl e' \<Rightarrow> (Returned (Append errs1 (Wrap e' ''upserting external service'')), w1)
                 | Inr db' \<Rightarrow> (Returned errs1, w1\<lparr>db := db'\<rparr>)))"
    unfolding SyncExternalService_reached [OF assms(1-4)] lp
    by (simp add: complete_def Let_def split: prod.splits sum.splits)
  with sy show ?thesis by simp
qed

text \<open>
  Witness for C6: the user of the examples may add two repos and has two. The source
  reports a known repo, a new one and another new one; the pass stops at the first new
  repo and still records the sync.
\<close>

theorem repo_limit_stops_pass_witness:
  "SyncExternalService (exSyncer (exSource exLimitResults)) False 7 Minute (exWorld exRows) =
     (Returned (Some (Multi [RepoLimitError 2 200000 2 2 42 0])),
      \<lparr>db = \<lparr>rows = exRows,
              services = [userSvc\<lparr>NextSyncAt := 108 * Hour, LastSyncAt := 100 * Hour\<rparr>,
                          siteSvc, cloudSvc]\<rparr>,
       trace = [Listed 7, Committed,
                Sent (emptyDiff\<lparr>Unmodified := [mkRepo 1 ''github.com/a/b'' ''1'']\<rparr>),
                LogError (RepoLimitError 2 200000 2 2 42 0)]\<rparr>) \<and>
   sync (exSyncer (exSource exLimitResults)) False userSvc (mkRepo 0 ''github.com/a/c'' ''3'')
     \<lparr>db = exDB exRows,
      trace = [Listed 7, Committed,
               Sent (emptyDiff\<lparr>Unmodified := [mkRepo 1 ''github.com/a/b'' ''1'']\<rparr>)]\<rparr> =
     (Returned (emptyDiff, Some (RepoLimitError 2 200000 2 2 42 0)),
      \<lparr>db = exDB exRows,
       trace = [Listed 7, Committed,
                Sent (emptyDiff\<lparr>Unmodified := [mkRepo 1 ''github.com/a/b'' ''1'']\<rparr>)]\<rparr>)"
proof -
  let ?s = "exSyncer (exSource exLimitResults)"
  let ?ls = "\<lparr>modified = False, seen = {1}, errs = None,
              world = \<lparr>db = exDB exRows,
                       trace = [Listed 7, Committed,
                         Sent (emptyDiff\<lparr>Unmodified := [mkRepo 1 ''github.com/a/b'' ''1'']\<rparr>)]\<rparr>,
              status = Running\<rparr>"
  have h1: "GetByID (Store ?s) (db (exWorld exRows)) 7 = Inr userSvc"
    by (simp add: ex_defs ref_defs)
  have h2: "\<not> CloudDefault userSvc"
    by (simp add: userSvc_def)
  have h3: "allowedFor ?s userSvc (db (exWorld exRows)) = Inr (\<lambda>r. \<not> Private r)"
    by (simp add: allowedFor_def ex_defs ref_defs)
  have h4: "Sourcer ?s userSvc = Inr \<lparr>ListRepos = exLimitResults, GetRepo = None\<rparr>"
    by (simp add: ex_defs)
  have h5: "ListRepos \<lparr>ListRepos = exLimitResults, GetRepo = None\<rparr> =
              [SourcedRepo (mkRepo 0 ''github.com/a/b'' ''1'')] @
              SourcedRepo (mkRepo 0 ''github.com/a/c'' ''3'') #
              [SourcedRepo (mkRepo 0 ''github.com/a/d'' ''4'')]"
    by (simp add: exLimitResults_def)
  have h6: "consume ?s False userSvc (\<lambda>r. \<not> Private r)
              [SourcedRepo (mkRepo 0 ''github.com/a/b'' ''1'')] (loop_init userSvc (exWorld exRows)) = ?ls"
    by (simp add: pass_defs sync_defs ex_defs ref_defs exRows_def Let_def)
  have h7: "status ?ls = Running" by simp
  have h8: "\<not> Private (mkRepo 0 ''github.com/a/c'' ''3'')" by (simp add: mkRepo_def)
  have h9: "\<not> IsSiteOwned userSvc" by (simp add: IsSiteOwned_def userSvc_def)
  have h10: "Transact (Store ?s) (db (world ?ls)) = Inr (exDB exRows)"
    by (simp add: ex_defs ref_defs)
  have h11: "RepoList (Store ?s) (exDB exRows) (Name (mkRepo 0 ''github.com/a/c'' ''3''))
               (ExternalRepo (mkRepo 0 ''github.com/a/c'' ''3'')) = Inr []"
    by (simp add: ex_defs ref_defs exRows_def Equal_def)
  have h12: "CountNamespacedRepos (Store ?s) (exDB exRows) 0 0 = Inr 2"
    by (simp add: ex_defs ref_defs exRows_def IsSiteOwned_def)
  have h13: "CountNamespacedRepos (Store ?s) (exDB exRows) (NamespaceUserID userSvc)
               (NamespaceOrgID userSvc) = Inr 2"
    by (simp add: ex_defs ref_defs exRows_def IsSiteOwned_def)
  have h14: "2 \<ge> userReposMaxPerSite ?s \<or> 2 \<ge> userReposMaxPerUser ?s"
    by (simp add: userReposMaxPerUser_def userReposMaxPerSite_def uint64_def exSyncer_def)
  have h15: "RepoLimitError 2 200000 2 2 42 0 =
               RepoLimitError 2 (userReposMaxPerSite ?s) 2 (userReposMaxPerUser ?s)
                 (NamespaceUserID userSvc) (NamespaceOrgID userSvc)"
    by (simp add: userReposMaxPerUser_def userReposMaxPerSite_def uint64_def exSyncer_def userSvc_def)
  show ?thesis
    using repo_limit_stops_pass [OF h1 h2 h3 h4 h5 h6 h7 h8 h9 h10 h11 h12 h13 h14 h15, of Minute]
      ex_pass_limit
    by simp
qed

text \<open>
  C7. For a cloud-default external service \<^verbatim>\<open>SyncExternalService\<close> returns
  \<^verbatim>\<open>ErrCloudDefaultSync\<close> and leaves the database and the trace as they were: no
  source was asked to stream, nothing was added, modified, deleted or sent.
\<close>

theorem cloud_default_not_synced:
  assumes "GetByID (Store s) (db w) externalServiceID = Inr svc" and "CloudDefault svc"
  shows "SyncExternalService s ctxDone externalServiceID minSyncInterval w =
           (Returned (Some ErrCloudDefaultSync), w)"
  using assms by (simp add: SyncExternalService_def)

text \<open>Witness for C7: the cloud-default service of the examples, which owns a repo.\<close>

theorem cloud_default_not_synced_witness:
  "SyncExternalService (exSyncer (exSource [SourcedRepo (mkRepo 0 ''github.com/a/b'' ''1'')]))
     False 9 Minute (exWorld [(mkRepo 5 ''github.com/c/d'' ''5'', 9)]) =
   (Returned (Some ErrCloudDefaultSync), exWorld [(mkRepo 5 ''github.com/c/d'' ''5'', 9)])"
  by (rule cloud_default_not_synced [where svc = cloudSvc]) (simp_all add: ex_defs ref_defs)

subsection \<open>The lazy single-repo path\<close>

text \<open>
  C10. When the name belongs to a public code host and the stored repo of that name is
  private, \<^verbatim>\<open>SyncRepo\<close> returns a repo-not-found error and leaves the database and
  the trace as they were: no source was contacted and the store was not changed.
\<close>

theorem SyncRepo_stored_private:
  assumes "CodeHostOf s name = Some codehost"
    and "GetByName (Store s) (db w) name = Inr r" and "Private r"
  shows "SyncRepo s ctxDone name background w = (Returned (None, Some (RepoNotFoundErr name)), w)"
  using assms by (simp add: SyncRepo_def)

text \<open>Witness for C10: a stored private repo on github.com.\<close>

theorem SyncRepo_stored_private_witness:
  "SyncRepo (exSyncer (exSource [])) False ''github.com/a/b'' False
     (exWorld [((mkRepo 1 ''github.com/a/b'' ''1'')\<lparr>Private := True\<rparr>, 9)]) =
   (Returned (None, Some (RepoNotFoundErr ''github.com/a/b'')),
    exWorld [((mkRepo 1 ''github.com/a/b'' ''1'')\<lparr>Private := True\<rparr>, 9)])"
  by (rule SyncRepo_stored_private [where codehost = github and r = "(mkRepo 1 ''github.com/a/b'' ''1'')\<lparr>Private := True\<rparr>"])
    (simp_all add: ex_defs ref_defs)

lemma syncRepo_fetch_error:
  assumes "syncRepo_fetch s c svc rg name path w = (Returned (repo, Some e), w1)"
  shows "repo = None \<and> w1 = emit (Fetched path) w"
proof (cases "rg path")
  case (Inl a)
  with assms show ?thesis by (simp add: syncRepo_fetch_def)
next
  case (Inr r)
  show ?thesis
  proof (cases "Private r")
    case True
    with assms Inr show ?thesis by (simp add: syncRepo_fetch_def)
  next
    case False
    obtain out w' where sy: "sync s c svc r (emit (Fetched path) w) = (out, w')"
      by (cases "sync s c svc r (emit (Fetched path) w)")
    with assms Inr False obtain d where "out = Returned (d, Some e)" and "repo = None" and "w1 = w'"
      by (auto simp: syncRepo_fetch_def split: outcome.splits option.splits)
    with sy sync_Returned_Some [of s c svc r "emit (Fetched path) w" d e w'] show ?thesis
      by simp
  qed
qed

lemma ex_lazy_private:
  "syncRepo (exSyncer exGetter) False github ''github.com/a/b''
     (Some (mkRepo 1 ''github.com/a/b'' ''1'')) (exWorld [(mkRepo 1 ''github.com/a/b'' ''1'', 9)]) =
   (Returned (None, Some (RepoNotFoundErr ''github.com/a/b'')),
    \<lparr>db = exDB [],
     trace = [Fetched ''a/b'', Sent (emptyDiff\<lparr>Deleted := [zeroRepo\<lparr>ID := 1\<rparr>]\<rparr>)]\<rparr>)"
  by (simp add: lazy_defs sync_defs ex_defs ref_defs exGetter_def Let_def)

text \<open>
  C8 (as the code has it). Once \<^verbatim>\<open>syncRepo\<close> has resolved the external service and
  its source can get single repos: a live repo that is private makes the operation fail
  with a repo-not-found error; and when a stored record was given and the operation
  ends with an error of the not-found, unauthorized, forbidden or account-suspended
  class, the deletion of the stored record is asked of the store (its failure is only
  logged) and, when the \<^verbatim>\<open>Synced\<close> channel is set and the context is live, a Diff with
  only that repo, in Deleted, is sent.
\<close>

theorem syncRepo_error_deletes_stored:
  assumes "ExternalServiceList (Store s) (db w) [TypeToKind s (CodeHost.ServiceType codehost)]
             (\<not> IsPackageHost codehost) = Inr [svc]"
    and "Sourcer s svc = Inr src" and "GetRepo src = Some rg"
    and "path = TrimPrefix name (TrimPrefix (CodeHost.ServiceID codehost) ''https://'')"
  shows "(\<forall>r. rg path = Inr r \<and> Private r \<longrightarrow>
            fst (syncRepo s ctxDone codehost name stored w) =
              Returned (None, Some (RepoNotFoundErr name))) \<and>
         (\<forall>st repo e w'.
            stored = Some st \<and>
            syncRepo s ctxDone codehost name stored w = (Returned (repo, Some e), w') \<and>
            (IsNotFound e \<or> IsUnauthorized e \<or> IsForbidden e \<or> IsAccountSuspended e) \<longrightarrow>
              repo = None \<and>
              db w' = (case DeleteExternalServiceRepo (Store s) (db w) svc (ID st) of
                         Inl err2 \<Rightarrow> db w | Inr db' \<Rightarrow> db') \<and>
              trace w' = trace w @ Fetched path #
                (case DeleteExternalServiceRepo (Store s) (db w) svc (ID st) of
                   Inl err2 \<Rightarrow> [LogError err2] | Inr db' \<Rightarrow> []) @
                (if Synced s \<and> \<not> ctxDone
                 then [Sent (emptyDiff\<lparr>Deleted := [zeroRepo\<lparr>ID := ID st\<rparr>]\<rparr>)] else []))"
proof (rule conjI)
  show "\<forall>r. rg path = Inr r \<and> Private r \<longrightarrow>
            fst (syncRepo s ctxDone codehost name stored w) =
              Returned (None, Some (RepoNotFoundErr name))"
  proof (intro allI impI)
    fix r assume "rg path = Inr r \<and> Private r"
    then have "syncRepo_fetch s ctxDone svc rg name path w =
                 (Returned (None, Some (RepoNotFoundErr name)), emit (Fetched path) w)"
      by (simp add: syncRepo_fetch_def)
    then show "fst (syncRepo s ctxDone codehost name stored w) =
                 Returned (None, Some (RepoNotFoundErr name))"
      using assms by (simp add: syncRepo_def Let_def split: option.splits)
  qed
next
  show "\<forall>st repo e w'.
            stored = Some st \<and>
            syncRepo s ctxDone codehost name stored w = (Returned (repo, Some e), w') \<and>
            (IsNotFound e \<or> IsUnauthorized e \<or> IsForbidden e \<or> IsAccountSuspended e) \<longrightarrow>
              repo = None \<and>
              db w' = (case DeleteExternalServiceRepo (Store s) (db w) svc (ID st) of
                         Inl err2 \<Rightarrow> db w | Inr db' \<Rightarrow> db') \<and>
              trace w' = trace w @ Fetched path #
                (case DeleteExternalServiceRepo (Store s) (db w) svc (ID st) of
                   Inl err2 \<Rightarrow> [LogError err2] | Inr db' \<Rightarrow> []) @
                (if Synced s \<and> \<not> ctxDone
                 then [Sent (emptyDiff\<lparr>Deleted := [zeroRepo\<lparr>ID := ID st\<rparr>]\<rparr>)] else [])"
  proof (intro allI impI)
    fix st repo e w'
    assume a: "stored = Some st \<and>
              syncRepo s ctxDone codehost name stored w = (Returned (repo, Some e), w') \<and>
              (IsNotFound e \<or> IsUnauthorized e \<or> IsForbidden e \<or> IsAccountSuspended e)"
    obtain out w1 where f: "syncRepo_fetch s ctxDone svc rg name path w = (out, w1)"
      by (cases "syncRepo_fetch s ctxDone svc rg name path w")
    from a f assms have out: "out = Returned (repo, Some e)"
      and w': "w' = syncRepo_deferred s ctxDone svc st (Some e) w1"
      by (auto simp: syncRepo_def Let_def split: outcome.splits)
    from syncRepo_fetch_error [OF f [unfolded out]]
    have r: "repo = None" and w1: "w1 = emit (Fetched path) w"
      by simp_all
    have "db w' = (case DeleteExternalServiceRepo (Store s) (db w) svc (ID st) of
                           Inl err2 \<Rightarrow> db w | Inr db' \<Rightarrow> db') \<and>
          trace w' = trace w @ Fetched path #
                  (case DeleteExternalServiceRepo (Store s) (db w) svc (ID st) of
                     Inl err2 \<Rightarrow> [LogError err2] | Inr db' \<Rightarrow> []) @
                  (if Synced s \<and> \<not> ctxDone
                   then [Sent (emptyDiff\<lparr>Deleted := [zeroRepo\<lparr>ID := ID st\<rparr>]\<rparr>)] else [])"
      using a unfolding w' w1
      by (auto simp: syncRepo_deferred_def notifyDeleted_def send_def emit_def Len_def
          emptyDiff_def Let_def split: sum.splits)
    with r show "repo = None \<and>
                db w' = (case DeleteExternalServiceRepo (Store s) (db w) svc (ID st) of
                           Inl err2 \<Rightarrow> db w | Inr db' \<Rightarrow> db') \<and>
                trace w' = trace w @ Fetched path #
                  (case DeleteExternalServiceRepo (Store s) (db w) svc (ID st) of
                     Inl err2 \<Rightarrow> [LogError err2] | Inr db' \<Rightarrow> []) @
                  (if Synced s \<and> \<not> ctxDone
                   then [Sent (emptyDiff\<lparr>Deleted := [zeroRepo\<lparr>ID := ID st\<rparr>]\<rparr>)] else [])"
      by simp
  qed
qed

text \<open>
  Witness for C8: the live repo is private; the stored record is deleted and the
  deletion is sent.
\<close>

theorem syncRepo_error_deletes_stored_witness:
  "syncRepo (exSyncer exGetter) False github ''github.com/a/b''
     (Some (mkRepo 1 ''github.com/a/b'' ''1'')) (exWorld [(mkRepo 1 ''github.com/a/b'' ''1'', 9)]) =
   (Returned (None, Some (RepoNotFoundErr ''github.com/a/b'')),
    \<lparr>db = exDB [],
     trace = [Fetched ''a/b'', Sent (emptyDiff\<lparr>Deleted := [zeroRepo\<lparr>ID := 1\<rparr>]\<rparr>)]\<rparr>)"
proof -
  have h1: "ExternalServiceList (Store (exSyncer exGetter))
              (db (exWorld [(mkRepo 1 ''github.com/a/b'' ''1'', 9)]))
              [TypeToKind (exSyncer exGetter) (CodeHost.ServiceType github)]
              (\<not> IsPackageHost github) = Inr [cloudSvc]"
    by (simp add: ex_defs ref_defs)
  have h2: "Sourcer (exSyncer exGetter) cloudSvc =
              Inr \<lparr>ListRepos = [],
                   GetRepo = Some (\<lambda>p. Inr ((mkRepo 0 ''github.com/a/b'' ''1'')\<lparr>Private := True\<rparr>))\<rparr>"
    by (simp add: exSyncer_def exGetter_def)
  have h3: "GetRepo \<lparr>ListRepos = [],
                   GetRepo = Some (\<lambda>p. Inr ((mkRepo 0 ''github.com/a/b'' ''1'')\<lparr>Private := True\<rparr>))\<rparr> =
              Some (\<lambda>p. Inr ((mkRepo 0 ''github.com/a/b'' ''1'')\<lparr>Private := True\<rparr>))"
    by simp
  have h4: "''a/b'' = TrimPrefix ''github.com/a/b'' (TrimPrefix (CodeHost.ServiceID github) ''https://'')"
    by (simp add: TrimPrefix_def github_def)
  show ?thesis
    using syncRepo_error_deletes_stored [OF h1 h2 h3 h4, of False "Some (mkRepo 1 ''github.com/a/b'' ''1'')"]
      ex_lazy_private
    by simp
qed

text \<open>
  Counterexample to C8 as stated: without a cloud-default service \<^verbatim>\<open>syncRepo\<close> ends
  with an error of the not-found class before its deferred function is registered; the
  stored record stays and nothing is sent.
\<close>

theorem syncRepo_unresolved_service_counterexample:
  "syncRepo (exSyncer (exSource [])) False github ''github.com/a/b''
     (Some (mkRepo 1 ''github.com/a/b'' ''1'')) exNoCloud =
   (Returned (None, Some (Wrap (RepoNotFoundErr ''github.com/a/b'')
                ''cloud default external service of type github not found'')), exNoCloud) \<and>
   IsNotFound (Wrap (RepoNotFoundErr ''github.com/a/b'')
                ''cloud default external service of type github not found'') \<and>
   GetByName (Store (exSyncer (exSource []))) (db exNoCloud) ''github.com/a/b'' =
     Inr (mkRepo 1 ''github.com/a/b'' ''1'')"
  by (simp add: lazy_defs ex_defs ref_defs exNoCloud_def)

end
